theory Spec2Isabelle
  imports Complex_Main "HOL-Library.Word"
begin

section \<open>Conventions of the embedding\<close>

text \<open>
  The Go sources are embedded function by function, keeping their names.

  \<^item> Go's \<open>int\<close> (scores, ids, counters) is \<open>int\<close>; the values are configuration points,
    seed counts and row ids, far from 64 bits. \<open>sql.NullInt32\<close> is a \<open>32 word option\<close>,
    and the conversion \<open>int32(x)\<close> is \<open>word_of_int\<close>, which wraps as Go does.
  \<^item> The \<open>float64\<close> size of a stream in GB is an exact rational (\<open>rat\<close>): a finite
    value with exact arithmetic. The \<open>float64\<close> limits of the configuration, which are
    read from a YAML file, are values of the datatype \<open>float64\<close>: a rational, NaN or
    an infinity, compared as Go compares them (every comparison with NaN is false).
  \<^item> \<open>sql.NullString\<close>, \<open>sql.NullTime\<close> are options: \<open>None\<close> is SQL NULL
    (\<open>Valid = false\<close>), and the field \<open>.String\<close> of a NULL is the empty string.
  \<^item> \<open>time.Time\<close> is a number of seconds (\<open>int\<close>); \<open>time.Now()\<close> is a parameter
    \<open>now\<close> of every function that reads the clock.
  \<^item> Strings are byte lists; \<open>strings.ToUpper\<close>, \<open>strings.ToLower\<close> and
    \<open>strings.TrimSpace\<close> act on the ASCII range.
  \<^item> An \<open>error\<close> return is a value of the datatype \<open>error\<close>; the formatted message
    is left out.
  \<^item> The PostgreSQL database is a record of tables, each a list of rows in storage
    order. Every call into the driver can fail: the field \<open>faults\<close> is a script of
    outcomes, one per driver call (\<open>True\<close>: this call returns an error), consumed from
    the front; an empty script means that the driver does not fail.
\<close>

type_synonym time = int
type_synonym int32 = "32 word"
type_synonym NullString = "string option"
type_synonym NullTime = "time option"
type_synonym NullInt32 = "int32 option"

text \<open>A \<open>float64\<close> of the configuration, with \<open><\<close> and \<open><=\<close> as in Go.\<close>

datatype float64 = NaN | NegInf | Fin rat | PosInf

fun f64_lt :: "float64 \<Rightarrow> float64 \<Rightarrow> bool" where
  "f64_lt NaN b = False"
| "f64_lt a NaN = False"
| "f64_lt (Fin x) (Fin y) = (x < y)"
| "f64_lt NegInf NegInf = False"
| "f64_lt NegInf b = True"
| "f64_lt PosInf b = False"
| "f64_lt (Fin x) PosInf = True"
| "f64_lt (Fin x) NegInf = False"

fun f64_le :: "float64 \<Rightarrow> float64 \<Rightarrow> bool" where
  "f64_le NaN b = False"
| "f64_le a NaN = False"
| "f64_le (Fin x) (Fin y) = (x \<le> y)"
| "f64_le NegInf b = True"
| "f64_le a PosInf = True"
| "f64_le a NegInf = False"
| "f64_le PosInf (Fin y) = False"

datatype error =
    DbError
  | ItemNotFound
  | NoStreamsFound
  | NoValidID
  | NoValidStreamsAfterFiltering
  | AllURLsFailed
  | RequestFailed
  | SaveScrapeResultFailed
  | GetEpisodesFailed
  | UpdateEpisodeFailed
  | FailedToScrapeAnyEpisodes
  | NoScrapeResultsFound
  | NoValidScrapeResults
  | AddTorrentFailed
  | SelectFilesFailed
  | GetDownloadLinkFailed
  | UpdateStatusFailed
  | WaitForDownloadFailed
  | ConfigError
  | NilDereference

text \<open>\<open>ns.String\<close> of a \<open>sql.NullString\<close>, \<open>n.Int32\<close> of a \<open>sql.NullInt32\<close>,
  \<open>t.Time\<close> of a \<open>sql.NullTime\<close> (the zero time is 0001-01-01 UTC).\<close>

definition String :: "NullString \<Rightarrow> string" where
  "String ns = (case ns of None \<Rightarrow> [] | Some s \<Rightarrow> s)"

definition Int32 :: "NullInt32 \<Rightarrow> int32" where
  "Int32 n = (case n of None \<Rightarrow> 0 | Some w \<Rightarrow> w)"

definition zero_time :: time where
  "zero_time = - 62135596800"

definition Time :: "NullTime \<Rightarrow> time" where
  "Time t = (case t of None \<Rightarrow> zero_time | Some x \<Rightarrow> x)"

text \<open>A Go map read \<open>m[k]\<close>: the zero value when the key is absent.\<close>

definition map_get :: "('k \<rightharpoonup> int) \<Rightarrow> 'k \<Rightarrow> int" where
  "map_get m k = (case m k of None \<Rightarrow> 0 | Some v \<Rightarrow> v)"

section \<open>The database\<close>

text \<open>The columns of \<open>watchlistitem\<close> that the embedded functions read or write.\<close>

record WatchlistItem =
  wi_ID :: int
  wi_Title :: string
  ImdbID :: NullString
  TmdbID :: NullString
  TvdbID :: NullString
  Description :: NullString
  Rating :: NullString
  Status :: NullString
  CurrentStep :: NullString
  ThumbnailURL :: NullString
  wi_UpdatedAt :: time
  LastScrapedDate :: NullTime
  MediaType :: NullString
  TotalSeasons :: NullInt32
  TotalEpisodes :: NullInt32
  ReleaseDate :: NullTime
  ShowStatus :: NullString

record Season =
  se_ID :: int
  se_WatchlistItemID :: int
  SeasonNumber :: int

record TVEpisode =
  ep_ID :: int
  SeasonID :: int
  EpisodeNumber :: int
  EpisodeName :: NullString
  AirDate :: NullTime
  Overview :: NullString
  StillPath :: NullString
  Scraped :: bool
  ScrapeResultID :: NullInt32

record ScrapeResult =
  sr_ID :: int
  WatchlistItemID :: int
  ScrapedFilename :: NullString
  ScrapedResolution :: NullString
  ScrapedDate :: NullTime
  sr_InfoHash :: NullString
  ScrapedScore :: NullInt32
  ScrapedFileSize :: NullString
  ScrapedCodec :: NullString
  StatusResults :: NullString
  DebridID :: NullString
  DebridURI :: NullString
  sr_CreatedAt :: time
  sr_UpdatedAt :: time

record db =
  watchlistitem :: "WatchlistItem list"
  seasons :: "Season list"
  tv_episodes :: "TVEpisode list"
  scrape_results :: "ScrapeResult list"
  scrape_results_id_seq :: int
  faults :: "bool list"

text \<open>One call into the driver: whether it fails, and the rest of the script.\<close>

definition driver_call :: "db \<Rightarrow> bool \<times> db" where
  "driver_call d = (case faults d of [] \<Rightarrow> (False, d) | f # fs \<Rightarrow> (f, d\<lparr>faults := fs\<rparr>))"

text \<open>\<open>GetWatchlistItemByID\<close>: the row with this id, \<open>nil\<close> when there is none.\<close>

definition GetWatchlistItemByID :: "int \<Rightarrow> db \<Rightarrow> (error + WatchlistItem option) \<times> db" where
  "GetWatchlistItemByID itemID d =
     (let (failed, d1) = driver_call d in
      if failed then (Inl DbError, d1)
      else (Inr (find (\<lambda>w. wi_ID w = itemID) (watchlistitem d1)), d1))"

text \<open>\<open>UpdateWatchlistItem\<close>: the UPDATE writes fifteen columns of the row with the
  item's id from the struct; the three external ids become NULL when empty, the other
  nullable columns receive the struct's \<open>.String\<close>, \<open>.Int32\<close> or \<open>.Time\<close>.\<close>

definition null_if_empty :: "string \<Rightarrow> NullString" where
  "null_if_empty s = (if s = [] then None else Some s)"

definition write_item :: "time \<Rightarrow> WatchlistItem \<Rightarrow> WatchlistItem \<Rightarrow> WatchlistItem" where
  "write_item now item row =
     row\<lparr> TmdbID := null_if_empty (String (TmdbID item)),
          wi_Title := wi_Title item,
          Description := Some (String (Description item)),
          ReleaseDate := Some (Time (ReleaseDate item)),
          Rating := Some (String (Rating item)),
          ThumbnailURL := Some (String (ThumbnailURL item)),
          MediaType := Some (String (MediaType item)),
          TotalSeasons := Some (Int32 (TotalSeasons item)),
          TotalEpisodes := Some (Int32 (TotalEpisodes item)),
          ShowStatus := Some (String (ShowStatus item)),
          Status := Some (String (Status item)),
          CurrentStep := Some (String (CurrentStep item)),
          ImdbID := null_if_empty (String (ImdbID item)),
          TvdbID := null_if_empty (String (TvdbID item)),
          wi_UpdatedAt := now \<rparr>"

definition UpdateWatchlistItem :: "time \<Rightarrow> WatchlistItem \<Rightarrow> db \<Rightarrow> error option \<times> db" where
  "UpdateWatchlistItem now item d =
     (let (failed, d1) = driver_call d in
      if failed then (Some DbError, d1)
      else (None, d1\<lparr>watchlistitem :=
              map (\<lambda>row. if wi_ID row = wi_ID item then write_item now item row else row)
                (watchlistitem d1)\<rparr>))"

section \<open>Retry handling of the base processor\<close>

text \<open>The part of the configuration that the embedded functions read.\<close>

record MediaFilesize =
  SizeUnit :: string
  Min :: float64
  Max :: float64

record Config =
  TorrentioURL :: string
  DefaultMaxRetries :: int
  MovieFilesize :: MediaFilesize
  ShowFilesize :: MediaFilesize
  PreferredUploaders :: "string list"
  LanguagesInclude :: "string list"
  LanguagesExclude :: "string list"
  LanguageIncludeScore :: int
  LanguageExcludePenalty :: int
  ResolutionScores :: "string \<rightharpoonup> int"
  CodecScores :: "string \<rightharpoonup> int"
  MaxSeederScore :: int
  MaxSizeScore :: int
  PreferredUploaderScore :: int

text \<open>The processor's state: its in-memory counters, the database, and the item ids
  for which a \<open>scheduleRetryReset\<close> goroutine has been started and is still asleep.\<close>

record BaseProcessor =
  retryCount :: "int \<rightharpoonup> int"
  database :: db
  sleeping :: "int list"

definition getMaxRetries :: "Config \<Rightarrow> int" where
  "getMaxRetries cfg = (if DefaultMaxRetries cfg > 0 then DefaultMaxRetries cfg else 3)"

definition updateStatus :: "string \<Rightarrow> time \<Rightarrow> int \<Rightarrow> db \<Rightarrow> error option \<times> db" where
  "updateStatus st now itemID d =
     (case GetWatchlistItemByID itemID d of
        (Inl e, d1) \<Rightarrow> (Some e, d1)
      | (Inr None, d1) \<Rightarrow> (Some ItemNotFound, d1)
      | (Inr (Some item), d1) \<Rightarrow> UpdateWatchlistItem now (item\<lparr>Status := Some st\<rparr>) d1)"

definition updateStatusFailed :: "time \<Rightarrow> int \<Rightarrow> db \<Rightarrow> error option \<times> db" where
  "updateStatusFailed = updateStatus ''failed''"

definition updateStatusNew :: "time \<Rightarrow> int \<Rightarrow> db \<Rightarrow> error option \<times> db" where
  "updateStatusNew = updateStatus ''new''"

text \<open>\<open>handleRetry\<close> increments the counter first and compares with \<open>>=\<close>; on failure
  it ignores the error of \<open>updateStatusFailed\<close> and starts the reset goroutine.\<close>

definition handleRetry :: "Config \<Rightarrow> time \<Rightarrow> int \<Rightarrow> BaseProcessor \<Rightarrow> bool \<times> BaseProcessor" where
  "handleRetry cfg now itemID bp =
     (let maxRetries = getMaxRetries cfg;
          rc = (retryCount bp)(itemID \<mapsto> map_get (retryCount bp) itemID + 1)
      in if map_get rc itemID \<ge> maxRetries
         then (False, bp\<lparr>retryCount := rc,
                          database := snd (updateStatusFailed now itemID (database bp)),
                          sleeping := sleeping bp @ [itemID]\<rparr>)
         else (True, bp\<lparr>retryCount := rc\<rparr>))"

text \<open>\<open>scheduleRetryReset\<close> after its sleep: the counter is deleted and the status set
  back to new.\<close>

definition scheduleRetryReset :: "time \<Rightarrow> int \<Rightarrow> BaseProcessor \<Rightarrow> BaseProcessor" where
  "scheduleRetryReset now itemID bp =
     bp\<lparr>retryCount := (retryCount bp)(itemID := None),
        database := snd (updateStatusNew now itemID (database bp)),
        sleeping := remove1 itemID (sleeping bp)\<rparr>"

definition status_of :: "db \<Rightarrow> int \<Rightarrow> NullString" where
  "status_of d itemID =
     (case find (\<lambda>w. wi_ID w = itemID) (watchlistitem d) of None \<Rightarrow> None | Some w \<Rightarrow> Status w)"

section \<open>Strings\<close>

definition ascii_upper :: string where
  "ascii_upper = ''ABCDEFGHIJKLMNOPQRSTUVWXYZ''"

definition ascii_lower :: string where
  "ascii_lower = ''abcdefghijklmnopqrstuvwxyz''"

definition to_lower_char :: "char \<Rightarrow> char" where
  "to_lower_char c = (case map_of (zip ascii_upper ascii_lower) c of None \<Rightarrow> c | Some l \<Rightarrow> l)"

definition to_upper_char :: "char \<Rightarrow> char" where
  "to_upper_char c = (case map_of (zip ascii_lower ascii_upper) c of None \<Rightarrow> c | Some u \<Rightarrow> u)"

definition ToLower :: "string \<Rightarrow> string" where
  "ToLower s = map to_lower_char s"

definition ToUpper :: "string \<Rightarrow> string" where
  "ToUpper s = map to_upper_char s"

definition is_space :: "char \<Rightarrow> bool" where
  "is_space c = (c \<in> set [CHR '' '', CHR 0x09, CHR 0x0A, CHR 0x0B, CHR 0x0C, CHR 0x0D])"

definition TrimSpace :: "string \<Rightarrow> string" where
  "TrimSpace s = rev (dropWhile is_space (rev (dropWhile is_space s)))"

fun HasPrefix :: "string \<Rightarrow> string \<Rightarrow> bool" where
  "HasPrefix s [] = True"
| "HasPrefix [] (p # ps) = False"
| "HasPrefix (c # cs) (p # ps) = (c = p \<and> HasPrefix cs ps)"

fun Contains :: "string \<Rightarrow> string \<Rightarrow> bool" where
  "Contains [] substr = (substr = [])"
| "Contains (c # cs) substr = (HasPrefix (c # cs) substr \<or> Contains cs substr)"

text \<open>\<open>strings.Split(s, sep)\<close> for a separator of one byte.\<close>

fun Split :: "string \<Rightarrow> char \<Rightarrow> string list" where
  "Split [] sep = [[]]"
| "Split (c # cs) sep =
     (if c = sep then [] # Split cs sep
      else (case Split cs sep of [] \<Rightarrow> [[c]] | x # xs \<Rightarrow> (c # x) # xs))"

section \<open>Sorting\<close>

text \<open>
  \<open>sort.Slice(xs, less)\<close>. For slices of at most twelve elements Go runs the insertion
  sort below: each element in turn moves left while it is \<open>less\<close> than its left
  neighbour. Go does not promise an order among elements that \<open>less\<close> does not
  separate in longer slices; the model uses the insertion sort at every length. The
  sorted prefix is kept reversed (its head is the element next to the one inserted).
\<close>

fun insert_left :: "('a \<Rightarrow> 'a \<Rightarrow> bool) \<Rightarrow> 'a \<Rightarrow> 'a list \<Rightarrow> 'a list" where
  "insert_left lt x [] = [x]"
| "insert_left lt x (y # ys) = (if lt x y then y # insert_left lt x ys else x # y # ys)"

definition sort_Slice :: "('a \<Rightarrow> 'a \<Rightarrow> bool) \<Rightarrow> 'a list \<Rightarrow> 'a list" where
  "sort_Slice lt xs = rev (foldl (\<lambda>acc x. insert_left lt x acc) [] xs)"

section \<open>Streams and their scores\<close>

record BehaviorHints =
  BingeGroup :: string
  Filename :: string

record ParsedInfo =
  Resolution :: string
  Codec :: string
  FileSize :: string
  Seeds :: int
  Source :: string
  pi_Title :: string
  Languages :: "string list"
  DistanceFromMax :: rat
  SizeScore :: int
  pi_Season :: int
  EpisodeCount :: int

record Stream =
  Name :: string
  Title :: string
  InfoHash :: string
  FileIdx :: int
  Hints :: BehaviorHints
  Parsed :: ParsedInfo
  Score :: int

text \<open>
  What the scraper takes from outside its own file. \<open>parseStreamInfo\<close> decodes a
  stream title with the standard library's float parser and formatter and its UTF-8
  decoder; the ranking below uses only the \<open>ParsedInfo\<close> it returns, so it is a
  parameter. \<open>Sscanf format input\<close> is \<open>fmt.Sscanf\<close> with the verbs \<open>%f\<close> and \<open>%s\<close>:
  \<open>Some (value, unit)\<close> when both were scanned without error, \<open>None\<close> otherwise.
  \<open>fetch url\<close> is \<open>makeRequest\<close> followed by the decoding of the body: the streams of
  the response, or \<open>None\<close> for a failed request, a status other than 200 or a body
  that does not decode.
\<close>

record env =
  parseStreamInfo :: "string \<Rightarrow> ParsedInfo"
  Sscanf :: "string \<Rightarrow> string \<Rightarrow> (rat \<times> string) option"
  fetch :: "string \<Rightarrow> Stream list option"

text \<open>\<open>convertToGB\<close>: non-ASCII bytes are dropped, the rest is trimmed and scanned
  with two formats in turn; an empty string, a failed scan and an unknown unit give 0.\<close>

definition unit_to_GB :: "rat \<Rightarrow> string \<Rightarrow> rat" where
  "unit_to_GB v unit =
     (if unit = ''TB'' \<or> unit = ''TIB'' then v * 1024
      else if unit = ''GB'' \<or> unit = ''GIB'' then v
      else if unit = ''MB'' \<or> unit = ''MIB'' then v / 1024
      else if unit = ''KB'' \<or> unit = ''KIB'' then v / (1024 * 1024)
      else 0)"

definition clean_size :: "string \<Rightarrow> string" where
  "clean_size sizeStr = TrimSpace (filter (\<lambda>c. (of_char c :: nat) \<le> 127) sizeStr)"

definition scan_size :: "env \<Rightarrow> string \<Rightarrow> (rat \<times> string) option" where
  "scan_size e cleaned =
     (case Sscanf e ''%f %s'' cleaned of
        Some r \<Rightarrow> Some r
      | None \<Rightarrow> Sscanf e ''%f%s'' cleaned)"

definition convertToGB :: "env \<Rightarrow> string \<Rightarrow> rat" where
  "convertToGB e sizeStr =
     (let cleaned = clean_size sizeStr in
      if cleaned = [] then 0
      else (case scan_size e cleaned of
              None \<Rightarrow> 0
            | Some (v, unit) \<Rightarrow> unit_to_GB v (ToUpper unit)))"

text \<open>\<open>hasPreferredUploader\<close>, with the four search terms of the source.\<close>

definition searchTerms :: "string \<Rightarrow> string list" where
  "searchTerms uploader =
     [uploader, ''-'' @ uploader, ''.'' @ uploader, ''['' @ uploader @ '']'']"

definition hasPreferredUploader :: "Config \<Rightarrow> string \<Rightarrow> bool" where
  "hasPreferredUploader cfg title =
     (\<exists>uploaderGroup \<in> set (PreferredUploaders cfg).
        \<exists>uploader \<in> set (Split uploaderGroup CHR '','').
          \<exists>t \<in> set (searchTerms (TrimSpace (ToUpper uploader))).
            Contains (ToUpper title) t)"

definition resolutionScore :: "Config \<Rightarrow> string \<Rightarrow> int" where
  "resolutionScore cfg r =
     (if r = ''2160p'' \<or> r = ''4k'' then map_get (ResolutionScores cfg) ''2160p''
      else if r = ''1080p'' then map_get (ResolutionScores cfg) ''1080p''
      else if r = ''720p'' then map_get (ResolutionScores cfg) ''720p''
      else if r = ''480p'' then map_get (ResolutionScores cfg) ''480p''
      else 0)"

definition codecScore :: "Config \<Rightarrow> string \<Rightarrow> int" where
  "codecScore cfg c =
     (if c = ''x265'' \<or> c = ''HEVC'' \<or> c = ''h265'' then map_get (CodecScores cfg) ''hevc''
      else if c = ''x264'' \<or> c = ''AVC'' \<or> c = ''h264'' then map_get (CodecScores cfg) ''avc''
      else 0)"

definition languageScore :: "Config \<Rightarrow> string list \<Rightarrow> int" where
  "languageScore cfg langs =
     (\<Sum>lang \<leftarrow> langs.
        (\<Sum>includedLang \<leftarrow> LanguagesInclude cfg.
           if lang = includedLang then LanguageIncludeScore cfg else 0)
      + (\<Sum>excludedLang \<leftarrow> LanguagesExclude cfg.
           if lang = excludedLang then LanguageExcludePenalty cfg else 0))"

definition calculateBaseScore :: "Config \<Rightarrow> Stream \<Rightarrow> int" where
  "calculateBaseScore cfg stream =
     resolutionScore cfg (Resolution (Parsed stream))
     + codecScore cfg (Codec (Parsed stream))
     + (if Seeds (Parsed stream) > MaxSeederScore cfg then MaxSeederScore cfg
        else Seeds (Parsed stream))
     + (if hasPreferredUploader cfg (Title stream) then PreferredUploaderScore cfg else 0)
     + languageScore cfg (Languages (Parsed stream))"

definition calculateScore :: "Config \<Rightarrow> Stream \<Rightarrow> int" where
  "calculateScore cfg stream = calculateBaseScore cfg stream + SizeScore (Parsed stream)"

section \<open>Validation of the file-size configuration\<close>

definition validateFilesizeConfig :: "Config \<Rightarrow> error option" where
  "validateFilesizeConfig c =
     (if SizeUnit (MovieFilesize c) \<noteq> ''GB'' then Some ConfigError
      else if f64_le (Min (MovieFilesize c)) (Fin 0) then Some ConfigError
      else if f64_le (Max (MovieFilesize c)) (Min (MovieFilesize c)) then Some ConfigError
      else if SizeUnit (ShowFilesize c) \<noteq> ''GB'' then Some ConfigError
      else if f64_le (Min (ShowFilesize c)) (Fin 0) then Some ConfigError
      else if f64_le (Max (ShowFilesize c)) (Min (ShowFilesize c)) then Some ConfigError
      else None)"

section \<open>Scrape results in the database\<close>

text \<open>\<open>UpdateScrapeResult\<close>: every column but the id, the item and the creation time
  is written to the rows with the result's id.\<close>

definition write_result :: "time \<Rightarrow> ScrapeResult \<Rightarrow> ScrapeResult \<Rightarrow> ScrapeResult" where
  "write_result now result row =
     row\<lparr> ScrapedFilename := ScrapedFilename result,
          ScrapedResolution := ScrapedResolution result,
          ScrapedDate := ScrapedDate result,
          sr_InfoHash := sr_InfoHash result,
          ScrapedScore := ScrapedScore result,
          ScrapedFileSize := ScrapedFileSize result,
          ScrapedCodec := ScrapedCodec result,
          StatusResults := StatusResults result,
          DebridID := DebridID result,
          DebridURI := DebridURI result,
          sr_UpdatedAt := now \<rparr>"

definition UpdateScrapeResult :: "time \<Rightarrow> ScrapeResult \<Rightarrow> db \<Rightarrow> error option \<times> db" where
  "UpdateScrapeResult now result d =
     (let (failed, d1) = driver_call d in
      if failed then (Some DbError, d1)
      else (None, d1\<lparr>scrape_results :=
              map (\<lambda>row. if sr_ID row = sr_ID result then write_result now result row else row)
                (scrape_results d1)\<rparr>))"

text \<open>\<open>SaveScrapeResult\<close> (in \<open>database.go\<close>): a result with a hash updates the first
  row of the same item and hash, if there is one; otherwise a row is inserted with the
  next value of the id sequence.\<close>

definition SaveScrapeResult :: "time \<Rightarrow> ScrapeResult \<Rightarrow> db \<Rightarrow> (error + int) \<times> db" where
  "SaveScrapeResult now result d =
     (let insert_row = (\<lambda>d0.
            let (failed, d1) = driver_call d0 in
            if failed then (Inl SaveScrapeResultFailed, d1)
            else (let newid = scrape_results_id_seq d1 + 1 in
                  (Inr newid,
                   d1\<lparr>scrape_results := scrape_results d1 @
                         [result\<lparr>sr_ID := newid, sr_CreatedAt := now, sr_UpdatedAt := now\<rparr>],
                       scrape_results_id_seq := newid\<rparr>)))
      in if sr_InfoHash result \<noteq> None then
           (let (failed, d1) = driver_call d in
            if failed then (Inl DbError, d1)
            else (case find (\<lambda>row. WatchlistItemID row = WatchlistItemID result
                                    \<and> sr_InfoHash row = sr_InfoHash result) (scrape_results d1) of
                    Some row \<Rightarrow>
                      (case UpdateScrapeResult now (result\<lparr>sr_ID := sr_ID row\<rparr>) d1 of
                         (Some e, d2) \<Rightarrow> (Inl e, d2)
                       | (None, d2) \<Rightarrow> (Inr (sr_ID row), d2))
                  | None \<Rightarrow> insert_row d1))
         else insert_row d)"

section \<open>The ranking engine: \<open>processStreams\<close>\<close>

text \<open>\<open>filterStreams\<close>: the size limits are those of shows when the item's media type
  is the string \<open>show\<close>, those of movies otherwise.\<close>

definition filterStreams :: "env \<Rightarrow> Config \<Rightarrow> Stream list \<Rightarrow> WatchlistItem \<Rightarrow> bool \<Rightarrow> bool \<Rightarrow> Stream list" where
  "filterStreams e cfg streams item useSize useUploader =
     (let limits = (if useSize
                    then (if MediaType item \<noteq> None \<and> String (MediaType item) = ''show''
                          then ShowFilesize cfg else MovieFilesize cfg)
                    else \<lparr> SizeUnit = [], Min = Fin 0, Max = Fin 0 \<rparr>);
          minSize = Min limits; maxSize = Max limits
      in filter (\<lambda>stream.
           \<not> (useSize \<and> (let sizeGB = convertToGB e (FileSize (Parsed stream))
                          in f64_lt (Fin sizeGB) minSize \<or> f64_lt maxSize (Fin sizeGB)))
           \<and> \<not> (useUploader \<and> \<not> hasPreferredUploader cfg (Title stream))) streams)"

text \<open>Conversion of a float to \<open>int\<close> truncates towards zero. The products
  \<open>float64(MaxSizeScore) * 0.8\<close> and \<open>* 0.6\<close> are taken exactly, as \<open>4/5\<close> and \<open>3/5\<close>.\<close>

definition float_to_int :: "rat \<Rightarrow> int" where
  "float_to_int r = (if r \<ge> 0 then \<lfloor>r\<rfloor> else \<lceil>r\<rceil>)"

text \<open>The loop that collects the indices of the first three streams at or under the
  maximum size.\<close>

fun closestStreams :: "env \<Rightarrow> float64 \<Rightarrow> Stream list \<Rightarrow> nat \<Rightarrow> nat list \<Rightarrow> nat list" where
  "closestStreams e maxSize [] i acc = acc"
| "closestStreams e maxSize (s # ss) i acc =
     (if f64_le (Fin (convertToGB e (FileSize (Parsed s)))) maxSize
      then (if length (acc @ [i]) = 3 then acc @ [i]
            else closestStreams e maxSize ss (i + 1) (acc @ [i]))
      else closestStreams e maxSize ss (i + 1) acc)"

definition setSizeScore :: "int \<Rightarrow> Stream \<Rightarrow> Stream" where
  "setSizeScore v s = s\<lparr>Parsed := (Parsed s)\<lparr>SizeScore := v\<rparr>\<rparr>"

definition assignSizeScores :: "Config \<Rightarrow> nat list \<Rightarrow> Stream list \<Rightarrow> Stream list" where
  "assignSizeScores cfg closest streams =
     (let s1 = (if length closest > 0
                then streams[closest ! 0 := setSizeScore (MaxSizeScore cfg) (streams ! (closest ! 0))]
                else streams);
          s2 = (if length closest > 1
                then s1[closest ! 1 :=
                        setSizeScore (float_to_int (of_int (MaxSizeScore cfg) * (4 / 5))) (s1 ! (closest ! 1))]
                else s1);
          s3 = (if length closest > 2
                then s2[closest ! 2 :=
                        setSizeScore (float_to_int (of_int (MaxSizeScore cfg) * (3 / 5))) (s2 ! (closest ! 2))]
                else s2)
      in s3)"

text \<open>The streams after the parsing loop and the sort by size (lines 469 to 480).\<close>

definition parsedStreams :: "env \<Rightarrow> Config \<Rightarrow> Stream list \<Rightarrow> Stream list" where
  "parsedStreams e cfg streams =
     map (\<lambda>s. let s1 = s\<lparr>Parsed := parseStreamInfo e (Title s)\<rparr>
               in s1\<lparr>Score := calculateScore cfg s1\<rparr>) streams"

definition sortedBySize :: "env \<Rightarrow> Config \<Rightarrow> Stream list \<Rightarrow> Stream list" where
  "sortedBySize e cfg streams =
     sort_Slice (\<lambda>a b. convertToGB e (FileSize (Parsed a)) > convertToGB e (FileSize (Parsed b)))
       (parsedStreams e cfg streams)"

text \<open>The maximum size that the tiering uses (lines 487 to 493): that of shows when
  the title of the first stream after the sort contains \<open>show\<close>, that of movies
  otherwise. The slice is not empty here.\<close>

definition tierMaxSize :: "Config \<Rightarrow> Stream list \<Rightarrow> float64" where
  "tierMaxSize cfg streams =
     (if Contains (ToLower (Title (streams ! 0))) ''show''
      then Max (ShowFilesize cfg) else Max (MovieFilesize cfg))"

text \<open>The streams with their size scores and total scores (lines 482 to 521).\<close>

definition scoredStreams :: "env \<Rightarrow> Config \<Rightarrow> Stream list \<Rightarrow> Stream list" where
  "scoredStreams e cfg streams =
     (let s1 = map (setSizeScore 0) (sortedBySize e cfg streams);
          maxSize = tierMaxSize cfg s1;
          closest = closestStreams e maxSize s1 0 [];
          s2 = assignSizeScores cfg closest s1
      in map (\<lambda>s. s\<lparr>Score := calculateBaseScore cfg s + SizeScore (Parsed s)\<rparr>) s2)"

text \<open>\<open>filteredStreams\<close> after the sort by score (lines 523 to 534).\<close>

definition rankedStreams :: "env \<Rightarrow> Config \<Rightarrow> Stream list \<Rightarrow> WatchlistItem \<Rightarrow> Stream list" where
  "rankedStreams e cfg streams item =
     (let scored = scoredStreams e cfg streams;
          filteredStreams = filterStreams e cfg scored item True False;
          filteredStreams = (if length filteredStreams = 0
                             then filterStreams e cfg scored item False False
                             else filteredStreams)
      in sort_Slice (\<lambda>a b. Score a > Score b) filteredStreams)"

definition scrapeResultOf :: "time \<Rightarrow> WatchlistItem \<Rightarrow> Stream \<Rightarrow> ScrapeResult" where
  "scrapeResultOf now item bestMatch =
     \<lparr> sr_ID = 0,
       WatchlistItemID = wi_ID item,
       ScrapedFilename = Some (pi_Title (Parsed bestMatch)),
       ScrapedResolution = Some (Resolution (Parsed bestMatch)),
       ScrapedDate = Some now,
       sr_InfoHash = Some (InfoHash bestMatch),
       ScrapedScore = Some (word_of_int (Score bestMatch)),
       ScrapedFileSize = Some (FileSize (Parsed bestMatch)),
       ScrapedCodec = Some (Codec (Parsed bestMatch)),
       StatusResults = Some ''ready_for_download'',
       DebridID = None,
       DebridURI = None,
       sr_CreatedAt = zero_time,
       sr_UpdatedAt = zero_time \<rparr>"

definition processStreams :: "env \<Rightarrow> Config \<Rightarrow> time \<Rightarrow> Stream list \<Rightarrow> WatchlistItem \<Rightarrow> db \<Rightarrow> error option \<times> db" where
  "processStreams e cfg now streams item d =
     (if length streams = 0 then (Some NoStreamsFound, d)
      else (case rankedStreams e cfg streams item of
              [] \<Rightarrow> (None, d)
            | bestMatch # _ \<Rightarrow>
                (case SaveScrapeResult now (scrapeResultOf now item bestMatch) d of
                   (Inl err, d1) \<Rightarrow> (Some SaveScrapeResultFailed, d1)
                 | (Inr _, d1) \<Rightarrow> (None, d1))))"

text \<open>A size string parses when it is not empty after cleaning and is scanned as a
  number with one of the eight units.\<close>

definition parses_as_size :: "env \<Rightarrow> string \<Rightarrow> bool" where
  "parses_as_size e sizeStr =
     (clean_size sizeStr \<noteq> [] \<and>
      (case scan_size e (clean_size sizeStr) of
         None \<Rightarrow> False
       | Some (v, u) \<Rightarrow> ToUpper u \<in> set [''TB'', ''TIB'', ''GB'', ''GIB'', ''MB'', ''MIB'', ''KB'', ''KIB'']))"


text \<open>One iteration of the parsing loop of \<open>processStreams\<close>.\<close>

definition reparse :: "env \<Rightarrow> Config \<Rightarrow> Stream \<Rightarrow> Stream" where
  "reparse e cfg s = (let s1 = s\<lparr>Parsed := parseStreamInfo e (Title s)\<rparr>
                      in s1\<lparr>Score := calculateScore cfg s1\<rparr>)"

section \<open>Seasons and episodes in the database\<close>

text \<open>\<open>ORDER BY\<close> is the insertion sort on the rows in storage order; SQL leaves the
  order of rows with equal keys open.\<close>

definition GetSeasonsForItem :: "int \<Rightarrow> db \<Rightarrow> (error + Season list) \<times> db" where
  "GetSeasonsForItem watchlistItemID d =
     (let (failed, d1) = driver_call d in
      if failed then (Inl DbError, d1)
      else (Inr (sort_Slice (\<lambda>a b. SeasonNumber a < SeasonNumber b)
                   (filter (\<lambda>s. se_WatchlistItemID s = watchlistItemID) (seasons d1))), d1))"

definition GetEpisodesForSeason :: "int \<Rightarrow> db \<Rightarrow> (error + TVEpisode list) \<times> db" where
  "GetEpisodesForSeason seasonID d =
     (let (failed, d1) = driver_call d in
      if failed then (Inl DbError, d1)
      else (Inr (sort_Slice (\<lambda>a b. EpisodeNumber a < EpisodeNumber b)
                   (filter (\<lambda>ep. SeasonID ep = seasonID) (tv_episodes d1))), d1))"

definition write_episode :: "TVEpisode \<Rightarrow> TVEpisode \<Rightarrow> TVEpisode" where
  "write_episode episode row =
     row\<lparr> EpisodeName := EpisodeName episode,
          AirDate := AirDate episode,
          Overview := Overview episode,
          StillPath := StillPath episode,
          Scraped := Scraped episode,
          ScrapeResultID := ScrapeResultID episode \<rparr>"

definition UpdateTVEpisode :: "TVEpisode \<Rightarrow> db \<Rightarrow> error option \<times> db" where
  "UpdateTVEpisode episode d =
     (let (failed, d1) = driver_call d in
      if failed then (Some DbError, d1)
      else (None, d1\<lparr>tv_episodes :=
              map (\<lambda>row. if ep_ID row = ep_ID episode then write_episode episode row else row)
                (tv_episodes d1)\<rparr>))"

text \<open>\<open>GetReturningSeriesWithUnscrapedEpisodes\<close>: the distinct items with show status
  \<open>Returning Series\<close> that have an episode, through one of their seasons, with an air
  date not after the current date and not scraped; ordered by id, each with its media
  type set to \<open>tv\<close>. The current date is the parameter \<open>today\<close>.\<close>

definition has_unscraped_aired_episode :: "time \<Rightarrow> db \<Rightarrow> WatchlistItem \<Rightarrow> bool" where
  "has_unscraped_aired_episode today d w =
     (\<exists>s \<in> set (seasons d). se_WatchlistItemID s = wi_ID w \<and>
        (\<exists>ep \<in> set (tv_episodes d). SeasonID ep = se_ID s \<and>
           (case AirDate ep of None \<Rightarrow> False | Some t \<Rightarrow> t \<le> today) \<and> \<not> Scraped ep))"

definition GetReturningSeriesWithUnscrapedEpisodes :: "time \<Rightarrow> db \<Rightarrow> (error + WatchlistItem list) \<times> db" where
  "GetReturningSeriesWithUnscrapedEpisodes today d =
     (let (failed, d1) = driver_call d in
      if failed then (Inl DbError, d1)
      else (Inr (map (\<lambda>w. w\<lparr>MediaType := Some ''tv''\<rparr>)
                   (sort_Slice (\<lambda>a b. wi_ID a < wi_ID b)
                      (remdups (filter (\<lambda>w. ShowStatus w = Some ''Returning Series''
                                           \<and> has_unscraped_aired_episode today d1 w)
                                  (watchlistitem d1))))), d1))"

section \<open>The daily check for new episodes\<close>

text \<open>\<open>checkForNewEpisodes\<close> (\<open>manager.go\<close>). The loop resets the status and the current
  step of every item returned and writes the item back; a failed update is logged and
  the loop goes on. \<open>LastScrapedDate\<close> is set in the struct, but the UPDATE does not
  write that column.\<close>

definition resetForIndexing :: "time \<Rightarrow> WatchlistItem \<Rightarrow> WatchlistItem" where
  "resetForIndexing now item =
     item\<lparr> Status := Some ''new'', CurrentStep := Some ''indexing_pending'',
           LastScrapedDate := Some now \<rparr>"

definition checkForNewEpisodes :: "time \<Rightarrow> time \<Rightarrow> db \<Rightarrow> db" where
  "checkForNewEpisodes now today d =
     (case GetReturningSeriesWithUnscrapedEpisodes today d of
        (Inl err, d1) \<Rightarrow> d1
      | (Inr items, d1) \<Rightarrow>
          foldl (\<lambda>d2 item. snd (UpdateWatchlistItem now (resetForIndexing now item) d2)) d1 items)"

section \<open>Season packs\<close>

text \<open>\<open>filterSeasonPackStreams\<close> keeps the streams whose parsed season and episode
  count are the season's, sorted by score, highest first.\<close>

definition filterSeasonPackStreams :: "Stream list \<Rightarrow> int \<Rightarrow> int \<Rightarrow> Stream list" where
  "filterSeasonPackStreams streams seasonNumber expectedEpisodeCount =
     sort_Slice (\<lambda>a b. Score a > Score b)
       (filter (\<lambda>stream. pi_Season (Parsed stream) = seasonNumber
                        \<and> EpisodeCount (Parsed stream) = expectedEpisodeCount) streams)"

definition seasonPackResult :: "time \<Rightarrow> WatchlistItem \<Rightarrow> Stream \<Rightarrow> ScrapeResult" where
  "seasonPackResult now item stream =
     \<lparr> sr_ID = 0,
       WatchlistItemID = wi_ID item,
       ScrapedFilename = Some (Filename (Hints stream)),
       ScrapedResolution = Some (Resolution (Parsed stream)),
       ScrapedDate = Some now,
       sr_InfoHash = Some (InfoHash stream),
       ScrapedScore = Some (word_of_int (Score stream)),
       ScrapedFileSize = None,
       ScrapedCodec = Some (Codec (Parsed stream)),
       StatusResults = Some ''ready_for_download'',
       DebridID = None,
       DebridURI = None,
       sr_CreatedAt = zero_time,
       sr_UpdatedAt = zero_time \<rparr>"

text \<open>The loop of \<open>processSeasonPack\<close> over the season's episodes stops at the first
  failed update.\<close>

fun markEpisodes :: "int \<Rightarrow> TVEpisode list \<Rightarrow> db \<Rightarrow> error option \<times> db" where
  "markEpisodes scrapeResultID [] d = (None, d)"
| "markEpisodes scrapeResultID (ep # eps) d =
     (case UpdateTVEpisode (ep\<lparr>ScrapeResultID := Some (word_of_int scrapeResultID), Scraped := True\<rparr>) d of
        (Some err, d1) \<Rightarrow> (Some UpdateEpisodeFailed, d1)
      | (None, d1) \<Rightarrow> markEpisodes scrapeResultID eps d1)"

definition processSeasonPack :: "time \<Rightarrow> Stream \<Rightarrow> WatchlistItem \<Rightarrow> Season \<Rightarrow> db \<Rightarrow> error option \<times> db" where
  "processSeasonPack now stream item season d =
     (case SaveScrapeResult now (seasonPackResult now item stream) d of
        (Inl err, d1) \<Rightarrow> (Some SaveScrapeResultFailed, d1)
      | (Inr scrapeResultID, d1) \<Rightarrow>
          (case GetEpisodesForSeason (se_ID season) d1 of
             (Inl err, d2) \<Rightarrow> (Some GetEpisodesFailed, d2)
           | (Inr episodes, d2) \<Rightarrow> markEpisodes scrapeResultID episodes d2))"

text \<open>How a row of \<open>watchlistitem\<close> after the daily check relates to the row before it,
  given the ids of the items that the check wrote.\<close>

definition reset_rel :: "int set \<Rightarrow> WatchlistItem \<Rightarrow> WatchlistItem \<Rightarrow> bool" where
  "reset_rel ids w w' =
     (wi_ID w' = wi_ID w
      \<and> (wi_ID w \<in> ids \<longrightarrow> Status w' = Some ''new'' \<and> CurrentStep w' = Some ''indexing_pending'')
      \<and> (wi_ID w \<notin> ids \<longrightarrow> w' = w))"

text \<open>How an episode row after \<open>processSeasonPack\<close> relates to the row before it,
  given the ids of the episodes that were written; and one iteration of its loop when
  the update succeeds.\<close>

definition mark_rel :: "int \<Rightarrow> int set \<Rightarrow> TVEpisode \<Rightarrow> TVEpisode \<Rightarrow> bool" where
  "mark_rel scrapeResultID ids r r' =
     (ep_ID r' = ep_ID r \<and> SeasonID r' = SeasonID r \<and> EpisodeNumber r' = EpisodeNumber r
      \<and> (ep_ID r \<in> ids \<longrightarrow> Scraped r' \<and> ScrapeResultID r' = Some (word_of_int scrapeResultID))
      \<and> (ep_ID r \<notin> ids \<longrightarrow> r' = r))"

definition markEpisode :: "int \<Rightarrow> db \<Rightarrow> TVEpisode \<Rightarrow> db" where
  "markEpisode scrapeResultID d ep =
     snd (UpdateTVEpisode (ep\<lparr>ScrapeResultID := Some (word_of_int scrapeResultID), Scraped := True\<rparr>) d)"

section \<open>Scraping a show episode by episode\<close>

text \<open>\<open>fmt.Sprintf("%02d", i)\<close>: the decimal digits, padded with a zero to two
  characters; a negative number has its sign and is at least two characters long.\<close>

definition digit_char :: "nat \<Rightarrow> char" where
  "digit_char n = ''0123456789'' ! n"

function decimal :: "nat \<Rightarrow> string" where
  "decimal n = (if n < 10 then [digit_char n] else decimal (n div 10) @ [digit_char (n mod 10)])"
  by pat_completeness auto
termination
  by (relation "measure id") auto

declare decimal.simps [simp del]

definition fmt_02d :: "int \<Rightarrow> string" where
  "fmt_02d i =
     (if i < 0 then ''-'' @ decimal (nat (- i))
      else (let ds = decimal (nat i) in if length ds < 2 then ''0'' @ ds else ds))"

definition episodePattern :: "int \<Rightarrow> int \<Rightarrow> string" where
  "episodePattern seasonNumber episodeNumber =
     ''S'' @ fmt_02d seasonNumber @ ''E'' @ fmt_02d episodeNumber"

text \<open>An episode is skipped as not yet released when its air date is valid and after
  the current time.\<close>

definition notYetReleased :: "time \<Rightarrow> TVEpisode \<Rightarrow> bool" where
  "notYetReleased currentTime episode =
     (AirDate episode \<noteq> None \<and> Time (AirDate episode) > currentTime)"

definition episodeResult :: "string \<Rightarrow> time \<Rightarrow> WatchlistItem \<Rightarrow> Stream \<Rightarrow> ScrapeResult" where
  "episodeResult status now item stream =
     \<lparr> sr_ID = 0,
       WatchlistItemID = wi_ID item,
       ScrapedFilename = Some (Filename (Hints stream)),
       ScrapedResolution = Some (Resolution (Parsed stream)),
       ScrapedDate = Some now,
       sr_InfoHash = Some (InfoHash stream),
       ScrapedScore = Some (word_of_int (Score stream)),
       ScrapedFileSize = None,
       ScrapedCodec = Some (Codec (Parsed stream)),
       StatusResults = Some status,
       DebridID = None,
       DebridURI = None,
       sr_CreatedAt = zero_time,
       sr_UpdatedAt = zero_time \<rparr>"

text \<open>The end of both episode loops: the result is saved and the episode is written
  back as scraped, pointing at the result. The error is the reason for \<open>continue\<close>.\<close>

definition saveForEpisode :: "string \<Rightarrow> time \<Rightarrow> WatchlistItem \<Rightarrow> Stream \<Rightarrow> TVEpisode \<Rightarrow> db \<Rightarrow> error option \<times> db" where
  "saveForEpisode status now item stream episode d =
     (case SaveScrapeResult now (episodeResult status now item stream) d of
        (Inl err, d1) \<Rightarrow> (Some SaveScrapeResultFailed, d1)
      | (Inr scrapeResultID, d1) \<Rightarrow>
          (case UpdateTVEpisode (episode\<lparr>ScrapeResultID := Some (word_of_int scrapeResultID),
                                          Scraped := True\<rparr>) d1 of
             (Some err, d2) \<Rightarrow> (Some UpdateEpisodeFailed, d2)
           | (None, d2) \<Rightarrow> (None, d2)))"

text \<open>The first loop of \<open>scrapeTVShow\<close>: the episodes of every season, each with its
  season's number; the first failing query ends the function.\<close>

fun collectEpisodes :: "Season list \<Rightarrow> db \<Rightarrow> (error + (TVEpisode \<times> int) list) \<times> db" where
  "collectEpisodes [] d = (Inr [], d)"
| "collectEpisodes (season # rest) d =
     (case GetEpisodesForSeason (se_ID season) d of
        (Inl err, d1) \<Rightarrow> (Inl err, d1)
      | (Inr episodes, d1) \<Rightarrow>
          (case collectEpisodes rest d1 of
             (Inl err, d2) \<Rightarrow> (Inl err, d2)
           | (Inr others, d2) \<Rightarrow>
               (Inr (map (\<lambda>ep. (ep, SeasonNumber season)) episodes @ others), d2)))"

text \<open>One iteration of the episode loop of \<open>scrapeTVShow\<close>, on the pair of \<open>foundAny\<close>
  and the database.\<close>

definition tvEpisodeStep :: "env \<Rightarrow> Config \<Rightarrow> time \<Rightarrow> WatchlistItem \<Rightarrow> Stream list \<Rightarrow> bool \<times> db \<Rightarrow> TVEpisode \<times> int \<Rightarrow> bool \<times> db" where
  "tvEpisodeStep e cfg now item streams st episodeInfo =
     (let foundAny = fst st; d = snd st;
          episode = fst episodeInfo; seasonNumber = snd episodeInfo
      in if notYetReleased now episode then (foundAny, d)
         else if Scraped episode then (True, d)
         else (let episodeStreams =
                     map (reparse e cfg)
                       (filter (\<lambda>stream. Contains (Title stream)
                                  (episodePattern seasonNumber (EpisodeNumber episode))) streams)
               in if length episodeStreams = 0 then (foundAny, d)
                  else (case saveForEpisode ''scraped'' now item
                               (sort_Slice (\<lambda>a b. Score a > Score b) episodeStreams ! 0) episode d of
                          (Some err, d1) \<Rightarrow> (foundAny, d1)
                        | (None, d1) \<Rightarrow> (True, d1))))"

definition scrapeTVShow :: "env \<Rightarrow> Config \<Rightarrow> time \<Rightarrow> WatchlistItem \<Rightarrow> db \<Rightarrow> error option \<times> db" where
  "scrapeTVShow e cfg now item d =
     (case GetSeasonsForItem (wi_ID item) d of
        (Inl err, d1) \<Rightarrow> (Some err, d1)
      | (Inr item_seasons, d1) \<Rightarrow>
          (case collectEpisodes item_seasons d1 of
             (Inl err, d2) \<Rightarrow> (Some err, d2)
           | (Inr allEpisodes, d2) \<Rightarrow>
               (case fetch e (TorrentioURL cfg @ ''/stream/show/'' @ String (ImdbID item) @ ''.json'') of
                  None \<Rightarrow> (Some RequestFailed, d2)
                | Some streams \<Rightarrow>
                    (let st = foldl (tvEpisodeStep e cfg now item streams) (False, d2) allEpisodes
                     in if \<not> fst st then (Some FailedToScrapeAnyEpisodes, snd st)
                        else (None, snd st)))))"

text \<open>\<open>searchTorrentio\<close>: the streams of the one URL built from the IMDb id, sorted by
  score; an error when there is no id or no stream.\<close>

definition searchTorrentio :: "env \<Rightarrow> Config \<Rightarrow> WatchlistItem \<Rightarrow> string \<Rightarrow> error + Stream list" where
  "searchTorrentio e cfg item query =
     (if ImdbID item \<noteq> None \<and> String (ImdbID item) \<noteq> []
      then (case fetch e (TorrentioURL cfg @ ''/stream/series/'' @ String (ImdbID item) @ '':''
                            @ query @ ''.json'') of
              None \<Rightarrow> Inl RequestFailed
            | Some streams \<Rightarrow>
                (let allStreams = sort_Slice (\<lambda>a b. Score a > Score b) streams
                 in if length allStreams > 0 then Inr allStreams else Inl NoStreamsFound))
      else Inl NoValidID)"

text \<open>One iteration of the loop of \<open>scrapeIndividualEpisodes\<close>, on \<open>foundAny\<close>,
  \<open>lastErr\<close> and the database.\<close>

definition individualEpisodeStep :: "env \<Rightarrow> Config \<Rightarrow> time \<Rightarrow> WatchlistItem \<Rightarrow> Season \<Rightarrow> bool \<times> error option \<times> db \<Rightarrow> TVEpisode \<Rightarrow> bool \<times> error option \<times> db" where
  "individualEpisodeStep e cfg now item season st episode =
     (let foundAny = fst st; lastErr = fst (snd st); d = snd (snd st)
      in if notYetReleased now episode then (foundAny, lastErr, d)
         else if Scraped episode then (True, lastErr, d)
         else (case searchTorrentio e cfg item
                      (episodePattern (SeasonNumber season) (EpisodeNumber episode)) of
                 Inl err \<Rightarrow> (foundAny, Some err, d)
               | Inr streams \<Rightarrow>
                   if length streams = 0 then (foundAny, Some NoStreamsFound, d)
                   else (case saveForEpisode ''pending_download'' now item
                                (sort_Slice (\<lambda>a b. Score a > Score b) streams ! 0) episode d of
                           (Some err, d1) \<Rightarrow> (foundAny, Some err, d1)
                         | (None, d1) \<Rightarrow> (True, lastErr, d1))))"

definition scrapeIndividualEpisodes :: "env \<Rightarrow> Config \<Rightarrow> time \<Rightarrow> WatchlistItem \<Rightarrow> Season \<Rightarrow> TVEpisode list \<Rightarrow> db \<Rightarrow> error option \<times> db" where
  "scrapeIndividualEpisodes e cfg now item season episodes d =
     (let st = foldl (individualEpisodeStep e cfg now item season) (False, None, d) episodes
      in if \<not> fst st \<and> fst (snd st) \<noteq> None then (Some FailedToScrapeAnyEpisodes, snd (snd st))
         else (None, snd (snd st)))"

section \<open>Scraping a movie: \<open>Scrape\<close>\<close>

text \<open>\<open>GetExistingHashForItem\<close>: the hash of the first row of the item that has one (the
  query has \<open>LIMIT 1\<close> and no order), the empty string when there is none.
  \<open>UpdateScrapeResultStatus\<close> sets the status of every row of the item.\<close>

definition GetExistingHashForItem :: "int \<Rightarrow> db \<Rightarrow> (error + string) \<times> db" where
  "GetExistingHashForItem itemID d =
     (let (failed, d1) = driver_call d in
      if failed then (Inl DbError, d1)
      else (case find (\<lambda>row. WatchlistItemID row = itemID \<and> sr_InfoHash row \<noteq> None)
                   (scrape_results d1) of
              None \<Rightarrow> (Inr [], d1)
            | Some row \<Rightarrow> (Inr (String (sr_InfoHash row)), d1)))"

definition UpdateScrapeResultStatus :: "time \<Rightarrow> int \<Rightarrow> string \<Rightarrow> db \<Rightarrow> error option \<times> db" where
  "UpdateScrapeResultStatus now itemID status d =
     (let (failed, d1) = driver_call d in
      if failed then (Some DbError, d1)
      else (None, d1\<lparr>scrape_results :=
              map (\<lambda>row. if WatchlistItemID row = itemID
                          then row\<lparr>StatusResults := Some status, sr_UpdatedAt := now\<rparr> else row)
                (scrape_results d1)\<rparr>))"

definition TrimPrefix :: "string \<Rightarrow> string \<Rightarrow> string" where
  "TrimPrefix s pre = (if HasPrefix s pre then drop (length pre) s else s)"

definition movieURLs :: "Config \<Rightarrow> WatchlistItem \<Rightarrow> string list" where
  "movieURLs cfg item =
     (if ImdbID item \<noteq> None \<and> String (ImdbID item) \<noteq> []
      then [TorrentioURL cfg @ ''/stream/movie/tt'' @ TrimPrefix (String (ImdbID item)) ''tt'' @ ''.json'']
      else [])
     @ (if TmdbID item \<noteq> None \<and> String (TmdbID item) \<noteq> []
        then [TorrentioURL cfg @ ''/stream/movie/tmdb:'' @ String (TmdbID item) @ ''.json'']
        else [])"

text \<open>The loop that drops the streams with the existing hash; for each of them the
  status of the item's results is set to \<open>ignored hash\<close> (an error is only logged).\<close>

definition dropExistingHash :: "time \<Rightarrow> WatchlistItem \<Rightarrow> string \<Rightarrow> Stream list \<times> db \<Rightarrow> Stream \<Rightarrow> Stream list \<times> db" where
  "dropExistingHash now item existingHash st stream =
     (if InfoHash stream \<noteq> existingHash then (fst st @ [stream], snd st)
      else (fst st, snd (UpdateScrapeResultStatus now (wi_ID item) ''ignored hash'' (snd st))))"

text \<open>The loop over the URLs: the first URL that answers decides the result.\<close>

fun tryURLs :: "env \<Rightarrow> Config \<Rightarrow> time \<Rightarrow> WatchlistItem \<Rightarrow> string list \<Rightarrow> db \<Rightarrow> error option \<times> db" where
  "tryURLs e cfg now item [] d = (Some AllURLsFailed, d)"
| "tryURLs e cfg now item (url # urls) d =
     (case fetch e url of
        None \<Rightarrow> tryURLs e cfg now item urls d
      | Some streams \<Rightarrow>
          (case GetExistingHashForItem (wi_ID item) d of
             (Inl err, d1) \<Rightarrow> (Some err, d1)
           | (Inr existingHash, d1) \<Rightarrow>
               (let st = foldl (dropExistingHash now item existingHash) ([], d1) streams
                in if length (fst st) = 0 then (Some NoValidStreamsAfterFiltering, snd st)
                   else processStreams e cfg now (fst st) item (snd st))))"

definition Scrape :: "env \<Rightarrow> Config \<Rightarrow> time \<Rightarrow> WatchlistItem \<Rightarrow> db \<Rightarrow> error option \<times> db" where
  "Scrape e cfg now item d =
     (if MediaType item \<noteq> None \<and> String (MediaType item) = ''tv''
      then scrapeTVShow e cfg now item d
      else (let urls = movieURLs cfg item
            in if length urls = 0 then (Some NoValidID, d)
               else tryURLs e cfg now item urls d))"

section \<open>The downloader\<close>

text \<open>
  The download service is outside the program. The \<open>world\<close> is the database together
  with the log of the requests sent to the service; the \<open>service\<close> gives the answer to
  each request from the requests sent before it. An answer \<open>None\<close> (or \<open>False\<close>) is a
  request that fails or an answer that the function treats as a failure. The torrent
  information carries the status string (\<open>None\<close> when the field is not a string), the
  links and the progress.
\<close>

datatype call = AddMagnet string | SelectFiles string | TorrentInfo string | DeleteTorrent string

record torrent_info =
  ti_status :: "string option"
  ti_links :: "string list"
  ti_progress :: rat

record service =
  addMagnet_reply :: "call list \<Rightarrow> string \<Rightarrow> string option"
  selectFiles_reply :: "call list \<Rightarrow> string \<Rightarrow> bool"
  info_reply :: "call list \<Rightarrow> string \<Rightarrow> torrent_info option"
  delete_reply :: "call list \<Rightarrow> string \<Rightarrow> bool"

record world =
  wdb :: db
  calls :: "call list"

text \<open>\<open>GetScrapeResultsForItem\<close> (\<open>internal/database/scrape_results.go\<close>): the rows of
  the item by descending score, NULL scores first.\<close>

definition score_before :: "ScrapeResult \<Rightarrow> ScrapeResult \<Rightarrow> bool" where
  "score_before a b =
     (case ScrapedScore a of
        None \<Rightarrow> ScrapedScore b \<noteq> None
      | Some x \<Rightarrow> (case ScrapedScore b of None \<Rightarrow> False | Some y \<Rightarrow> sint x > sint y))"

definition GetScrapeResultsForItem :: "int \<Rightarrow> db \<Rightarrow> (error + ScrapeResult list) \<times> db" where
  "GetScrapeResultsForItem itemID d =
     (let (failed, d1) = driver_call d in
      if failed then (Inl DbError, d1)
      else (Inr (sort_Slice score_before
                   (filter (\<lambda>row. WatchlistItemID row = itemID) (scrape_results d1))), d1))"

definition addTorrent :: "service \<Rightarrow> string \<Rightarrow> world \<Rightarrow> (error + string) \<times> world" where
  "addTorrent svc infoHash w =
     (case addMagnet_reply svc (calls w) infoHash of
        None \<Rightarrow> Inl AddTorrentFailed
      | Some torrentID \<Rightarrow> Inr torrentID,
      w\<lparr>calls := calls w @ [AddMagnet infoHash]\<rparr>)"

definition selectFiles :: "service \<Rightarrow> string \<Rightarrow> world \<Rightarrow> error option \<times> world" where
  "selectFiles svc torrentID w =
     (if selectFiles_reply svc (calls w) torrentID then None else Some SelectFilesFailed,
      w\<lparr>calls := calls w @ [SelectFiles torrentID]\<rparr>)"

definition removeTorrent :: "service \<Rightarrow> string \<Rightarrow> world \<Rightarrow> error option \<times> world" where
  "removeTorrent svc torrentID w =
     (if delete_reply svc (calls w) torrentID then None else Some GetDownloadLinkFailed,
      w\<lparr>calls := calls w @ [DeleteTorrent torrentID]\<rparr>)"

text \<open>\<open>updateDownloadStatus\<close> changes the struct behind the pointer and writes it.\<close>

definition updateDownloadStatus :: "time \<Rightarrow> ScrapeResult \<Rightarrow> string \<Rightarrow> world \<Rightarrow> error option \<times> ScrapeResult \<times> world" where
  "updateDownloadStatus now scrapeResult status w =
     (let r = scrapeResult\<lparr>StatusResults := Some status, sr_UpdatedAt := now\<rparr>
      in (case UpdateScrapeResult now r (wdb w) of
            (Some err, d1) \<Rightarrow> (Some UpdateStatusFailed, r, w\<lparr>wdb := d1\<rparr>)
          | (None, d1) \<Rightarrow> (None, r, w\<lparr>wdb := d1\<rparr>)))"

text \<open>\<open>getDownloadLink\<close>: a torrent that is not \<open>downloaded\<close> is removed when it is
  \<open>queued\<close>, and the scrape result is marked \<open>re-scrape\<close>; all of this is an error.\<close>

definition getDownloadLink :: "service \<Rightarrow> time \<Rightarrow> string \<Rightarrow> ScrapeResult \<Rightarrow> world \<Rightarrow> (error + string) \<times> ScrapeResult \<times> world" where
  "getDownloadLink svc now torrentID scrapeResult w =
     (let w1 = w\<lparr>calls := calls w @ [TorrentInfo torrentID]\<rparr>
      in (case info_reply svc (calls w) torrentID of
            None \<Rightarrow> (Inl GetDownloadLinkFailed, scrapeResult, w1)
          | Some ti \<Rightarrow>
              if ti_status ti \<noteq> Some ''downloaded'' then
                (case (if ti_status ti = Some ''queued'' then removeTorrent svc torrentID w1
                       else (None, w1)) of
                   (Some err, w2) \<Rightarrow> (Inl GetDownloadLinkFailed, scrapeResult, w2)
                 | (None, w2) \<Rightarrow>
                     (let r = scrapeResult\<lparr>StatusResults := Some ''re-scrape''\<rparr>
                      in (Inl GetDownloadLinkFailed, r,
                          w2\<lparr>wdb := snd (UpdateScrapeResult now r (wdb w2))\<rparr>)))
              else if length (ti_links ti) = 0 then (Inl GetDownloadLinkFailed, scrapeResult, w1)
              else (Inr (ti_links ti ! 0), scrapeResult, w1)))"

definition checkDownloadStatus :: "service \<Rightarrow> time \<Rightarrow> string \<Rightarrow> ScrapeResult \<Rightarrow> world \<Rightarrow> error option \<times> ScrapeResult \<times> world" where
  "checkDownloadStatus svc now torrentID result w =
     (let w1 = w\<lparr>calls := calls w @ [TorrentInfo torrentID]\<rparr>
      in (case info_reply svc (calls w) torrentID of
            None \<Rightarrow> (Some WaitForDownloadFailed, result, w1)
          | Some ti \<Rightarrow>
              if ti_progress ti \<ge> 100 then updateDownloadStatus now result ''downloaded'' w1
              else (Some WaitForDownloadFailed, result, w1)))"

text \<open>\<open>waitForDownload\<close>: at most thirty checks.\<close>

fun waitAttempts :: "nat \<Rightarrow> service \<Rightarrow> time \<Rightarrow> string \<Rightarrow> ScrapeResult \<Rightarrow> world \<Rightarrow> error option \<times> ScrapeResult \<times> world" where
  "waitAttempts 0 svc now torrentID result w = (Some WaitForDownloadFailed, result, w)"
| "waitAttempts (Suc n) svc now torrentID result w =
     (case checkDownloadStatus svc now torrentID result w of
        (None, r1, w1) \<Rightarrow> (None, r1, w1)
      | (Some err, r1, w1) \<Rightarrow> waitAttempts n svc now torrentID r1 w1)"

definition waitForDownload :: "service \<Rightarrow> time \<Rightarrow> string \<Rightarrow> ScrapeResult \<Rightarrow> world \<Rightarrow> error option \<times> ScrapeResult \<times> world" where
  "waitForDownload = waitAttempts 30"

text \<open>One iteration of the loop for TV shows: every failure marks the result and goes
  on with the next one.\<close>

definition markIgnored :: "time \<Rightarrow> ScrapeResult \<Rightarrow> world \<Rightarrow> world" where
  "markIgnored now result w = snd (snd (updateDownloadStatus now result ''downloader_ignored_hash'' w))"

definition downloadEpisodeResult :: "service \<Rightarrow> time \<Rightarrow> world \<Rightarrow> ScrapeResult \<Rightarrow> world" where
  "downloadEpisodeResult svc now w result =
     (if String (StatusResults result) = ''scraped'' then
        (case addTorrent svc (String (sr_InfoHash result)) w of
           (Inl err, w1) \<Rightarrow> markIgnored now result w1
         | (Inr torrentID, w1) \<Rightarrow>
             (case selectFiles svc torrentID w1 of
                (Some err, w2) \<Rightarrow> markIgnored now result w2
              | (None, w2) \<Rightarrow>
                  (case getDownloadLink svc now torrentID result w2 of
                     (Inl err, r3, w3) \<Rightarrow> markIgnored now r3 w3
                   | (Inr downloadLink, r3, w3) \<Rightarrow>
                       (case updateDownloadStatus now r3 ''downloading'' w3 of
                          (Some err, r4, w4) \<Rightarrow> w4
                        | (None, r4, w4) \<Rightarrow>
                            (case waitForDownload svc now torrentID r4 w4 of
                               (Some err, r5, w5) \<Rightarrow>
                                 snd (snd (updateDownloadStatus now r5 ''download_failed'' w5))
                             | (None, r5, w5) \<Rightarrow> w5)))))
      else w)"

text \<open>The loop that picks the movie's result: the first result with status \<open>scraped\<close>
  and a valid score above every score before it, starting from 0 (signed 32-bit
  comparison).\<close>

definition pickBest :: "ScrapeResult option \<times> int32 \<Rightarrow> ScrapeResult \<Rightarrow> ScrapeResult option \<times> int32" where
  "pickBest st result =
     (if String (StatusResults result) = ''scraped''
         \<and> ScrapedScore result \<noteq> None
         \<and> sint (Int32 (ScrapedScore result)) > sint (snd st)
      then (Some result, Int32 (ScrapedScore result))
      else st)"

text \<open>The movie branch after the choice. \<open>bestResult\<close> is a pointer that the loop has
  set whenever \<open>bestScore\<close> is not 0; a nil pointer here would be a panic, which the
  model returns as \<open>NilDereference\<close>.\<close>

definition downloadMovie :: "service \<Rightarrow> time \<Rightarrow> WatchlistItem \<Rightarrow> ScrapeResult \<Rightarrow> world \<Rightarrow> error option \<times> world" where
  "downloadMovie svc now item bestResult w =
     (case addTorrent svc (String (sr_InfoHash bestResult)) w of
        (Inl err, w1) \<Rightarrow> (Some AddTorrentFailed, w1)
      | (Inr torrentID, w1) \<Rightarrow>
          (case selectFiles svc torrentID w1 of
             (Some err, w2) \<Rightarrow> (Some SelectFilesFailed, w2)
           | (None, w2) \<Rightarrow>
               (case getDownloadLink svc now torrentID bestResult w2 of
                  (Inl err, r3, w3) \<Rightarrow> (Some GetDownloadLinkFailed, w3)
                | (Inr downloadLink, r3, w3) \<Rightarrow>
                    (case updateDownloadStatus now r3 ''downloading'' w3 of
                       (Some err, r4, w4) \<Rightarrow> (Some UpdateStatusFailed, w4)
                     | (None, r4, w4) \<Rightarrow>
                         (case waitForDownload svc now torrentID r4 w4 of
                            (Some err, r5, w5) \<Rightarrow> (Some WaitForDownloadFailed, w5)
                          | (None, r5, w5) \<Rightarrow>
                              (case UpdateWatchlistItem now
                                      (item\<lparr>Status := Some ''downloaded'',
                                            CurrentStep := Some ''symlink_pending''\<rparr>) (wdb w5) of
                                 (Some err, d6) \<Rightarrow> (Some DbError, w5\<lparr>wdb := d6\<rparr>)
                               | (None, d6) \<Rightarrow> (None, w5\<lparr>wdb := d6\<rparr>)))))))"

definition Download :: "service \<Rightarrow> time \<Rightarrow> WatchlistItem \<Rightarrow> world \<Rightarrow> error option \<times> world" where
  "Download svc now item w =
     (case GetScrapeResultsForItem (wi_ID item) (wdb w) of
        (Inl err, d1) \<Rightarrow> (Some err, w\<lparr>wdb := d1\<rparr>)
      | (Inr scrapeResults, d1) \<Rightarrow>
          (let w1 = w\<lparr>wdb := d1\<rparr>
           in if length scrapeResults = 0 then (Some NoScrapeResultsFound, w1)
              else if MediaType item \<noteq> None \<and> String (MediaType item) = ''tv''
              then (None, foldl (downloadEpisodeResult svc now) w1 scrapeResults)
              else (let best = foldl pickBest (None, 0) scrapeResults
                    in if snd best = 0 then (Some NoValidScrapeResults, w1)
                       else (case fst best of
                               None \<Rightarrow> (Some NilDereference, w1)
                             | Some bestResult \<Rightarrow> downloadMovie svc now item bestResult w1))))"

text \<open>The results that the movie loop can pick.\<close>

definition pickable :: "ScrapeResult \<Rightarrow> bool" where
  "pickable r =
     (String (StatusResults r) = ''scraped'' \<and> ScrapedScore r \<noteq> None
      \<and> sint (Int32 (ScrapedScore r)) > 0)"

text \<open>The loop's state after the results \<open>seen\<close>: the score is that of the picked result,
  0 when nothing is picked, and no pickable result seen has a higher score.\<close>

definition pick_inv :: "ScrapeResult list \<Rightarrow> ScrapeResult option \<times> int32 \<Rightarrow> bool" where
  "pick_inv seen st =
     (sint (snd st) \<ge> 0
      \<and> (case fst st of
            None \<Rightarrow> snd st = 0 \<and> list_all (\<lambda>r. \<not> pickable r) seen
          | Some b \<Rightarrow> b \<in> set seen \<and> pickable b \<and> Int32 (ScrapedScore b) = snd st)
      \<and> list_all (\<lambda>r. pickable r \<longrightarrow> sint (Int32 (ScrapedScore r)) \<le> sint (snd st)) seen)"

text \<open>The request log of a world starts with the given requests.\<close>

definition extends :: "call list \<Rightarrow> world \<Rightarrow> bool" where
  "extends cs w = (\<exists>ext. calls w = cs @ ext)"

section \<open>The size tiers, as the specification words them\<close>

text \<open>The size bonus of the \<open>k\<close>-th stream at or under the maximum: the whole, four
  fifths and three fifths of the maximum size score for the first three, nothing for
  the others.\<close>

definition tier_bonus :: "Config \<Rightarrow> nat \<Rightarrow> int" where
  "tier_bonus cfg k =
     (if k = 0 then MaxSizeScore cfg
      else if k = 1 then float_to_int (of_int (MaxSizeScore cfg) * (4 / 5))
      else if k = 2 then float_to_int (of_int (MaxSizeScore cfg) * (3 / 5))
      else 0)"

text \<open>The bonuses of a list of sizes in GB, given the maximum size and the number \<open>k\<close>
  of sizes at or under it that came earlier in the list.\<close>

fun spec_size_bonuses :: "Config \<Rightarrow> float64 \<Rightarrow> nat \<Rightarrow> rat list \<Rightarrow> int list" where
  "spec_size_bonuses cfg maxSize k [] = []"
| "spec_size_bonuses cfg maxSize k (sz # szs) =
     (if f64_le (Fin sz) maxSize then tier_bonus cfg k # spec_size_bonuses cfg maxSize (Suc k) szs
      else 0 # spec_size_bonuses cfg maxSize k szs)"

text \<open>Three functions that the proofs about \<open>closestStreams\<close> and \<open>assignSizeScores\<close>
  go through: the indices, from \<open>i\<close> on, of the elements that satisfy \<open>P\<close>; the
  assignments of \<open>assignSizeScores\<close> for any list of indices, from tier \<open>k\<close> on; and the
  same assignments made in one pass over the streams.\<close>

fun positions :: "('a \<Rightarrow> bool) \<Rightarrow> 'a list \<Rightarrow> nat \<Rightarrow> nat list" where
  "positions P [] i = []"
| "positions P (x # xs) i = (if P x then [i] else []) @ positions P xs (Suc i)"

fun assignFrom :: "Config \<Rightarrow> nat \<Rightarrow> nat list \<Rightarrow> Stream list \<Rightarrow> Stream list" where
  "assignFrom cfg k [] ys = ys"
| "assignFrom cfg k (j # js) ys =
     assignFrom cfg (Suc k) js (ys[j := setSizeScore (tier_bonus cfg k) (ys ! j)])"

fun tier_assign :: "Config \<Rightarrow> env \<Rightarrow> float64 \<Rightarrow> nat \<Rightarrow> Stream list \<Rightarrow> Stream list" where
  "tier_assign cfg e maxSize k [] = []"
| "tier_assign cfg e maxSize k (s # ss) =
     (if f64_le (Fin (convertToGB e (FileSize (Parsed s)))) maxSize
      then (if k < 3 then setSizeScore (tier_bonus cfg k) s else s)
             # tier_assign cfg e maxSize (Suc k) ss
      else s # tier_assign cfg e maxSize k ss)"

section \<open>Example data\<close>

text \<open>Concrete inputs at which the theorems below are evaluated. The configuration
  takes its numbers from \<open>config.yaml_example\<close>.\<close>

definition example_item :: WatchlistItem where
  "example_item =
     \<lparr> wi_ID = 1, wi_Title = ''Example'', ImdbID = Some ''tt0000001'', TmdbID = None,
       TvdbID = None, Description = None, Rating = None, Status = Some ''new'',
       CurrentStep = Some ''scrape_pending'', ThumbnailURL = None, wi_UpdatedAt = 0,
       LastScrapedDate = None, MediaType = Some ''movie'', TotalSeasons = None,
       TotalEpisodes = None, ReleaseDate = None, ShowStatus = None \<rparr>"

definition example_db :: db where
  "example_db = \<lparr> watchlistitem = [example_item], seasons = [], tv_episodes = [],
                   scrape_results = [], scrape_results_id_seq = 0, faults = [] \<rparr>"

definition example_config :: Config where
  "example_config =
     \<lparr> TorrentioURL = ''https://torrentio.example'',
       DefaultMaxRetries = 3,
       MovieFilesize = \<lparr> SizeUnit = ''GB'', Min = Fin 1, Max = Fin 11 \<rparr>,
       ShowFilesize = \<lparr> SizeUnit = ''GB'', Min = Fin (1 / 5), Max = Fin 7 \<rparr>,
       PreferredUploaders = [''SPARKS,AMIABLE,GECKOS''],
       LanguagesInclude = [''GB'', ''US''],
       LanguagesExclude = [''RU'', ''CN'', ''IN'', ''HR''],
       LanguageIncludeScore = 400,
       LanguageExcludePenalty = - 1400,
       ResolutionScores = [''2160p'' \<mapsto> 800, ''1080p'' \<mapsto> 2300, ''720p'' \<mapsto> 200, ''480p'' \<mapsto> 100],
       CodecScores = [''hevc'' \<mapsto> 10, ''avc'' \<mapsto> 5],
       MaxSeederScore = 100,
       MaxSizeScore = 2000,
       PreferredUploaderScore = 300 \<rparr>"

text \<open>A processor whose item 1 has already failed twice, and one whose item 1 has not
  failed yet.\<close>

definition example_processor :: BaseProcessor where
  "example_processor = \<lparr> retryCount = [1 \<mapsto> 2], database = example_db, sleeping = [] \<rparr>"

definition fresh_processor :: BaseProcessor where
  "fresh_processor = \<lparr> retryCount = Map.empty, database = example_db, sleeping = [] \<rparr>"

text \<open>Streams as the JSON decoder leaves them (no parsed information, score 0), an
  environment whose parser and scanner are tables, and the configuration of the
  specification's tiering example (maximum 10 GB, maximum size score 1000).\<close>

definition empty_info :: ParsedInfo where
  "empty_info = \<lparr> Resolution = [], Codec = [], FileSize = [], Seeds = 0, Source = [],
                   pi_Title = [], Languages = [], DistanceFromMax = 0, SizeScore = 0,
                   pi_Season = 0, EpisodeCount = 0 \<rparr>"

definition json_stream :: "string \<Rightarrow> string \<Rightarrow> Stream" where
  "json_stream title hash =
     \<lparr> Name = ''Torrentio'', Title = title, InfoHash = hash, FileIdx = 0,
       Hints = \<lparr> BingeGroup = [], Filename = [] \<rparr>, Parsed = empty_info, Score = 0 \<rparr>"

definition example_info :: "string \<Rightarrow> string \<Rightarrow> string \<Rightarrow> ParsedInfo" where
  "example_info title res sz = empty_info\<lparr> pi_Title := title, Resolution := res, FileSize := sz \<rparr>"

definition example_catalogue :: "(string \<times> ParsedInfo) list" where
  "example_catalogue =
     [(''Alpha 2160p'', example_info ''Alpha 2160p'' ''2160p'' ''9.50 GB''),
      (''Alpha 1080p'', example_info ''Alpha 1080p'' ''1080p'' ''9.00 GB''),
      (''Alpha 720p'', example_info ''Alpha 720p'' ''720p'' ''8.00 GB''),
      (''Alpha 480p'', example_info ''Alpha 480p'' ''480p'' ''3.00 GB''),
      (''The Truman Show 2160p'', example_info ''The Truman Show 2160p'' ''2160p'' ''9.50 GB''),
      (''Alpha 1080p remux'', example_info ''Alpha 1080p remux'' ''1080p'' ''15.00 GB''),
      (''Alpha cam'', example_info ''Alpha cam'' [] []),
      (''Series S01E02 1080p'', example_info ''Series S01E02 1080p'' ''1080p'' []),
      (''Series S01E02 720p'', example_info ''Series S01E02 720p'' ''720p'' []),
      (''Series S01E03 1080p'', example_info ''Series S01E03 1080p'' ''1080p'' []),
      (''Series S01E01 1080p'', example_info ''Series S01E01 1080p'' ''1080p'' []),
      (''Series Season 1 Complete 1080p'',
         (example_info ''Series Season 1 Complete 1080p'' ''1080p'' [])\<lparr> pi_Season := 1, EpisodeCount := 3 \<rparr>),
      (''Series Season 1 Complete 720p'',
         (example_info ''Series Season 1 Complete 720p'' ''720p'' [])\<lparr> pi_Season := 1, EpisodeCount := 3 \<rparr>)]"

definition example_sizes :: "(string \<times> rat \<times> string) list" where
  "example_sizes =
     [(''9.50 GB'', 19 / 2, ''GB''), (''9.00 GB'', 9, ''GB''), (''8.00 GB'', 8, ''GB''),
      (''3.00 GB'', 3, ''GB''), (''15.00 GB'', 15, ''GB'')]"

definition example_env :: env where
  "example_env =
     \<lparr> parseStreamInfo = (\<lambda>t. case map_of example_catalogue t of
                                  None \<Rightarrow> empty_info\<lparr>pi_Title := t\<rparr> | Some i \<Rightarrow> i),
       Sscanf = (\<lambda>fmt input. if fmt = ''%f %s'' then map_of example_sizes input else None),
       fetch = (\<lambda>url. None) \<rparr>"

definition tier_config :: Config where
  "tier_config = example_config\<lparr> MaxSizeScore := 1000,
      MovieFilesize := \<lparr> SizeUnit = ''GB'', Min = Fin 1, Max = Fin 10 \<rparr> \<rparr>"

definition alpha_streams :: "Stream list" where
  "alpha_streams = [json_stream ''Alpha 480p'' ''h4'', json_stream ''Alpha 2160p'' ''h1'',
                    json_stream ''Alpha 720p'' ''h3'', json_stream ''Alpha 1080p'' ''h2'']"

definition fallback_streams :: "Stream list" where
  "fallback_streams = [json_stream ''Alpha cam'' ''h6'', json_stream ''Alpha 1080p remux'' ''h5'']"

text \<open>A returning series that has gone through the whole pipeline, with one scraped
  episode, one aired and not yet scraped, and one that airs at time 900.\<close>

definition series_item :: WatchlistItem where
  "series_item = example_item\<lparr> wi_ID := 7, wi_Title := ''Series'', Status := Some ''completed'',
      CurrentStep := Some ''symlink_completed'', MediaType := Some ''tv'',
      ShowStatus := Some ''Returning Series'' \<rparr>"

definition example_episode :: "int \<Rightarrow> int \<Rightarrow> time \<Rightarrow> bool \<Rightarrow> TVEpisode" where
  "example_episode eid num air was_scraped =
     \<lparr> ep_ID = eid, SeasonID = 70, EpisodeNumber = num, EpisodeName = None, AirDate = Some air,
       Overview = None, StillPath = None, Scraped = was_scraped,
       ScrapeResultID = (if was_scraped then Some 1 else None) \<rparr>"

definition series_db :: db where
  "series_db = \<lparr> watchlistitem = [example_item, series_item],
       seasons = [\<lparr> se_ID = 70, se_WatchlistItemID = 7, SeasonNumber = 1 \<rparr>],
       tv_episodes = [example_episode 701 1 100 True, example_episode 702 2 200 False,
                      example_episode 703 3 900 False],
       scrape_results = [], scrape_results_id_seq = 1, faults = [] \<rparr>"




definition season_one :: Season where
  "season_one = \<lparr> se_ID = 70, se_WatchlistItemID = 7, SeasonNumber = 1 \<rparr>"

text \<open>The candidate source for the series: one answer for the whole show, and one for
  each episode query.\<close>

definition series_streams :: "Stream list" where
  "series_streams = [json_stream ''Series S01E02 1080p'' ''e2'', json_stream ''Series S01E03 1080p'' ''e3'',
                     json_stream ''Series S01E02 720p'' ''e2b'']"

definition series_env :: env where
  "series_env = example_env\<lparr> fetch := (\<lambda>url.
      if url = ''https://torrentio.example/stream/show/tt0000001.json'' then Some series_streams
      else if url = ''https://torrentio.example/stream/series/tt0000001:S01E02.json''
        then Some [json_stream ''Series S01E02 1080p'' ''e2'']
      else if url = ''https://torrentio.example/stream/series/tt0000001:S01E03.json''
        then Some [json_stream ''Series S01E03 1080p'' ''e3'']
      else None) \<rparr>"

text \<open>Scrape results of the movie item, two worlds around them, and a download
  service that accepts every torrent and reports it downloaded.\<close>

definition movie_result :: "int \<Rightarrow> string \<Rightarrow> int32 \<Rightarrow> string \<Rightarrow> ScrapeResult" where
  "movie_result rid hash score status =
     \<lparr> sr_ID = rid, WatchlistItemID = 1, ScrapedFilename = Some ''Alpha'',
       ScrapedResolution = Some ''1080p'', ScrapedDate = Some 10, sr_InfoHash = Some hash,
       ScrapedScore = Some score, ScrapedFileSize = Some ''9.00 GB'', ScrapedCodec = Some [],
       StatusResults = Some status, DebridID = None, DebridURI = None,
       sr_CreatedAt = 10, sr_UpdatedAt = 10 \<rparr>"

definition zero_world :: world where
  "zero_world =
     \<lparr> wdb = example_db\<lparr> scrape_results :=
               [movie_result 1 ''h1'' 0 ''scraped'', movie_result 2 ''h2'' 3000 ''ready_for_download''],
             scrape_results_id_seq := 2 \<rparr>,
       calls = [] \<rparr>"

definition scored_world :: world where
  "scored_world =
     \<lparr> wdb = example_db\<lparr> scrape_results :=
               [movie_result 1 ''h1'' 1800 ''scraped'', movie_result 2 ''h2'' 3100 ''scraped'',
                movie_result 3 ''h3'' 5000 ''download_failed''],
             scrape_results_id_seq := 3 \<rparr>,
       calls = [] \<rparr>"

definition ready_service :: service where
  "ready_service =
     \<lparr> addMagnet_reply = (\<lambda>log infoHash. Some ''T1''),
       selectFiles_reply = (\<lambda>log torrentID. True),
       info_reply = (\<lambda>log torrentID.
          Some \<lparr> ti_status = Some ''downloaded'', ti_links = [''https://dl.example/1''],
                 ti_progress = 100 \<rparr>),
       delete_reply = (\<lambda>log torrentID. True) \<rparr>"


text \<open>A download service that refuses every torrent, and a source that answers the
  movie's query with the streams of the tiering example.\<close>

definition refusing_service :: service where
  "refusing_service = ready_service\<lparr> addMagnet_reply := (\<lambda>log infoHash. None) \<rparr>"

definition movie_env :: env where
  "movie_env = example_env\<lparr> fetch := (\<lambda>url.
      if url = ''https://torrentio.example/stream/movie/tt0000001.json'' then Some alpha_streams
      else None) \<rparr>"

text \<open>Three scrape runs for the movie over the same answer, at times 100, 200 and 300.
  The third run is also made on the database of the second with its result rows in the
  other storage order: the query of \<open>GetExistingHashForItem\<close> has no \<open>ORDER BY\<close>.\<close>

definition movie_scrape_1 :: db where
  "movie_scrape_1 = snd (Scrape movie_env tier_config 100 example_item example_db)"

definition movie_scrape_2 :: db where
  "movie_scrape_2 = snd (Scrape movie_env tier_config 200 example_item movie_scrape_1)"

definition movie_scrape_3 :: db where
  "movie_scrape_3 = snd (Scrape movie_env tier_config 300 example_item movie_scrape_2)"

definition movie_scrape_3_reordered :: db where
  "movie_scrape_3_reordered =
     snd (Scrape movie_env tier_config 300 example_item
            (movie_scrape_2\<lparr> scrape_results := rev (scrape_results movie_scrape_2) \<rparr>))"

text \<open>The series: a scrape run at time 500, a download run at 510 against the refusing
  service, and a second scrape run at 520 over the same answer. The second run is also
  made after the episode rows have been set back to unscraped.\<close>

definition tv_scrape_1 :: db where
  "tv_scrape_1 = snd (scrapeTVShow series_env example_config 500 series_item series_db)"

definition tv_download_1 :: world where
  "tv_download_1 = snd (Download refusing_service 510 series_item \<lparr> wdb = tv_scrape_1, calls = [] \<rparr>)"

definition tv_scrape_2 :: db where
  "tv_scrape_2 = snd (scrapeTVShow series_env example_config 520 series_item (wdb tv_download_1))"

definition unscraped_again :: "int \<Rightarrow> db \<Rightarrow> db" where
  "unscraped_again eid d =
     d\<lparr> tv_episodes := map (\<lambda>ep. if ep_ID ep = eid
                                   then ep\<lparr> Scraped := False, ScrapeResultID := None \<rparr> else ep)
                            (tv_episodes d) \<rparr>"

definition tv_scrape_2_reset :: db where
  "tv_scrape_2_reset =
     snd (scrapeTVShow series_env example_config 520 series_item (unscraped_again 702 (wdb tv_download_1)))"

text \<open>The example configuration with a movie minimum that is not a number.\<close>

definition nan_config :: Config where
  "nan_config = example_config\<lparr> MovieFilesize := \<lparr> SizeUnit = ''GB'', Min = NaN, Max = Fin 11 \<rparr> \<rparr>"

section \<open>Properties of the database operations\<close>

lemma driver_call_ok: "faults d = [] \<Longrightarrow> driver_call d = (False, d)"
  by (simp add: driver_call_def)

lemma find_wi_map:
  "(\<And>r. wi_ID (f r) = wi_ID r) \<Longrightarrow>
   find (\<lambda>w. wi_ID w = i) (map f ws) = map_option f (find (\<lambda>w. wi_ID w = i) ws)"
  by (induction ws) auto

lemma wi_ID_write_item: "wi_ID (write_item now item row) = wi_ID row"
  by (simp add: write_item_def)

lemma Status_write_item: "Status (write_item now item row) = Some (String (Status item))"
  by (simp add: write_item_def)

section \<open>Retry handling\<close>

lemma updateStatus_ok:
  assumes "faults d = []" and "find (\<lambda>w. wi_ID w = i) (watchlistitem d) = Some w"
  shows "status_of (snd (updateStatus st now i d)) i = Some st"
proof -
  have id: "wi_ID w = i" using assms(2) by (auto dest: find_Some_iff[THEN iffD1])
  let ?f = "\<lambda>row. if wi_ID row = i then write_item now (w\<lparr>Status := Some st\<rparr>) row else row"
  have "find (\<lambda>w. wi_ID w = i) (map ?f (watchlistitem d)) = Some (?f w)"
    using assms(2) by (subst find_wi_map) (simp_all add: wi_ID_write_item)
  then show ?thesis
    using assms id
    by (simp add: updateStatus_def GetWatchlistItemByID_def UpdateWatchlistItem_def
        driver_call_ok status_of_def Status_write_item String_def)
qed

text \<open>
  Claim C3, as the code has it. \<open>handleRetry\<close> reports failure exactly when the
  counter, after the increment, has reached \<open>getMaxRetries\<close> (the comparison is
  \<open>>=\<close>: the item fails at the count equal to the maximum, not above it). It raises
  the item's counter by one and lowers no counter. When it fails it starts the reset
  goroutine and, if the driver works and the item exists, the item's status is
  \<open>failed\<close>; otherwise it touches neither the database nor the goroutines. The only
  decrease of a counter is \<open>scheduleRetryReset\<close>, which deletes it and puts the item
  back to status \<open>new\<close> by itself, with no external reset.
\<close>

theorem retry_discipline:
  "fst (handleRetry cfg now i bp) = (map_get (retryCount bp) i + 1 < getMaxRetries cfg)
   \<and> map_get (retryCount (snd (handleRetry cfg now i bp))) i = map_get (retryCount bp) i + 1
   \<and> (\<forall>j. map_get (retryCount bp) j \<le> map_get (retryCount (snd (handleRetry cfg now i bp))) j)
   \<and> (getMaxRetries cfg \<le> map_get (retryCount bp) i + 1 \<longrightarrow>
        i \<in> set (sleeping (snd (handleRetry cfg now i bp))) \<and>
        (faults (database bp) = [] \<longrightarrow>
         (\<forall>w. find (\<lambda>w. wi_ID w = i) (watchlistitem (database bp)) = Some w \<longrightarrow>
           status_of (database (snd (handleRetry cfg now i bp))) i = Some ''failed'')))
   \<and> (map_get (retryCount bp) i + 1 < getMaxRetries cfg \<longrightarrow>
        database (snd (handleRetry cfg now i bp)) = database bp \<and>
        sleeping (snd (handleRetry cfg now i bp)) = sleeping bp)
   \<and> retryCount (scheduleRetryReset now i bp) = (retryCount bp)(i := None)
   \<and> (faults (database bp) = [] \<longrightarrow>
        (\<forall>w. find (\<lambda>w. wi_ID w = i) (watchlistitem (database bp)) = Some w \<longrightarrow>
          status_of (database (scheduleRetryReset now i bp)) i = Some ''new''))"
  by (auto simp: handleRetry_def Let_def map_get_def updateStatusFailed_def updateStatusNew_def
      scheduleRetryReset_def updateStatus_ok)

lemmas example_simps =
  example_config_def example_processor_def fresh_processor_def example_db_def example_item_def

theorem retry_discipline_witness:
  "getMaxRetries example_config \<le> map_get (retryCount example_processor) 1 + 1
   \<and> faults (database example_processor) = []
   \<and> find (\<lambda>w. wi_ID w = 1) (watchlistitem (database example_processor)) = Some example_item
   \<and> \<not> fst (handleRetry example_config 0 1 example_processor)
   \<and> 1 \<in> set (sleeping (snd (handleRetry example_config 0 1 example_processor)))
   \<and> status_of (database (snd (handleRetry example_config 0 1 example_processor))) 1 = Some ''failed''
   \<and> status_of (database (scheduleRetryReset 0 1 example_processor)) 1 = Some ''new''
   \<and> map_get (retryCount fresh_processor) 1 + 1 < getMaxRetries example_config
   \<and> fst (handleRetry example_config 0 1 fresh_processor)
   \<and> database (snd (handleRetry example_config 0 1 fresh_processor)) = database fresh_processor"
proof -
  have a: "getMaxRetries example_config \<le> map_get (retryCount example_processor) 1 + 1"
    by (simp add: example_simps getMaxRetries_def map_get_def)
  have b: "faults (database example_processor) = []"
    by (simp add: example_simps)
  have c: "find (\<lambda>w. wi_ID w = 1) (watchlistitem (database example_processor)) = Some example_item"
    by (simp add: example_simps)
  have d: "map_get (retryCount fresh_processor) 1 + 1 < getMaxRetries example_config"
    by (simp add: example_simps getMaxRetries_def map_get_def)
  show ?thesis
    using a b c d retry_discipline [of example_config 0 1 example_processor]
      retry_discipline [of example_config 0 1 fresh_processor]
    by simp
qed

text \<open>
  Claim C3 as stated fails at the default maximum of 3 for an item that has failed
  twice: the third failure marks it failed although its count, 3, does not exceed the
  maximum; the scheduled reset then lowers the count from 3 to 0 with no successful
  stage advance and returns the item to \<open>new\<close> with no external reset.
\<close>

theorem retry_discipline_counterexample:
  "\<not> fst (handleRetry example_config 0 1 example_processor)
   \<and> status_of (database (snd (handleRetry example_config 0 1 example_processor))) 1 = Some ''failed''
   \<and> map_get (retryCount (snd (handleRetry example_config 0 1 example_processor))) 1 = 3
   \<and> getMaxRetries example_config = 3
   \<and> map_get (retryCount (scheduleRetryReset 0 1 (snd (handleRetry example_config 0 1 example_processor)))) 1 = 0
   \<and> status_of (database (scheduleRetryReset 0 1 (snd (handleRetry example_config 0 1 example_processor)))) 1 = Some ''new''"
  by (simp add: handleRetry_def Let_def map_get_def updateStatusFailed_def updateStatusNew_def
      scheduleRetryReset_def example_simps getMaxRetries_def
      updateStatus_def GetWatchlistItemByID_def UpdateWatchlistItem_def driver_call_def
      status_of_def write_item_def String_def)

section \<open>Sorting\<close>

lemma set_insert_left: "set (insert_left lt x ys) = insert x (set ys)"
  by (induction ys) auto

lemma length_insert_left: "length (insert_left lt x ys) = Suc (length ys)"
  by (induction ys) auto

lemma set_foldl_insert_left:
  "set (foldl (\<lambda>acc x. insert_left lt x acc) acc xs) = set acc \<union> set xs"
  by (induction xs arbitrary: acc) (auto simp: set_insert_left)

lemma length_foldl_insert_left:
  "length (foldl (\<lambda>acc x. insert_left lt x acc) acc xs) = length acc + length xs"
  by (induction xs arbitrary: acc) (auto simp: length_insert_left)

lemma set_sort_Slice: "set (sort_Slice lt xs) = set xs"
  by (simp add: sort_Slice_def set_foldl_insert_left)

lemma length_sort_Slice: "length (sort_Slice lt xs) = length xs"
  by (simp add: sort_Slice_def length_foldl_insert_left)

lemma sort_Slice_Nil_iff: "sort_Slice lt xs = [] \<longleftrightarrow> xs = []"
  using length_sort_Slice [of lt xs] by (metis length_0_conv)

lemma sorted_insert_left:
  fixes key :: "'a \<Rightarrow> 'k::linorder"
  assumes "sorted_wrt (\<lambda>a b. key a \<le> key b) ys"
  shows "sorted_wrt (\<lambda>a b. key a \<le> key b) (insert_left (\<lambda>a b. key a > key b) x ys)"
  using assms
proof (induction ys)
  case Nil
  then show ?case by simp
next
  case (Cons y ys)
  show ?case
  proof (cases "key x > key y")
    case True
    with Cons show ?thesis by (auto simp: set_insert_left)
  next
    case False
    with Cons.prems show ?thesis by auto
  qed
qed

lemma sorted_foldl_insert_left:
  fixes key :: "'a \<Rightarrow> 'k::linorder"
  assumes "sorted_wrt (\<lambda>a b. key a \<le> key b) acc"
  shows "sorted_wrt (\<lambda>a b. key a \<le> key b)
           (foldl (\<lambda>acc x. insert_left (\<lambda>a b. key a > key b) x acc) acc xs)"
  using assms by (induction xs arbitrary: acc) (auto intro: sorted_insert_left)

lemma sorted_sort_Slice:
  fixes key :: "'a \<Rightarrow> 'k::linorder"
  shows "sorted_wrt (\<lambda>a b. key a \<ge> key b) (sort_Slice (\<lambda>a b. key a > key b) xs)"
proof -
  have "sorted_wrt (\<lambda>a b. key a \<le> key b)
          (foldl (\<lambda>acc x. insert_left (\<lambda>a b. key a > key b) x acc) [] xs)"
    by (rule sorted_foldl_insert_left) simp
  then show ?thesis by (simp add: sort_Slice_def sorted_wrt_rev)
qed

lemma sort_Slice_head_max:
  fixes key :: "'a \<Rightarrow> 'k::linorder"
  assumes "sort_Slice (\<lambda>a b. key a > key b) xs = b # rest"
  shows "b \<in> set xs \<and> (\<forall>s \<in> set xs. key s \<le> key b)"
proof -
  have s: "set (b # rest) = set xs" using assms set_sort_Slice by metis
  have "sorted_wrt (\<lambda>a b. key a \<ge> key b) (b # rest)"
    using sorted_sort_Slice [of key xs] assms by simp
  then have "\<forall>s \<in> set rest. key s \<le> key b" by simp
  with s show ?thesis by auto
qed

lemma foldl_insert_left_sorted:
  fixes key :: "'a \<Rightarrow> 'k::linorder"
  assumes "sorted_wrt (\<lambda>a b. key a \<ge> key b) (rev acc @ xs)"
  shows "foldl (\<lambda>acc x. insert_left (\<lambda>a b. key a > key b) x acc) acc xs = rev xs @ acc"
  using assms
proof (induction xs arbitrary: acc)
  case Nil
  then show ?case by simp
next
  case (Cons x xs)
  have il: "insert_left (\<lambda>a b. key a > key b) x acc = x # acc"
  proof (cases acc)
    case Nil
    then show ?thesis by simp
  next
    case (Cons y ys)
    with Cons.prems have "key y \<ge> key x" by (auto simp: sorted_wrt_append)
    then have "\<not> key x > key y" by (simp add: not_less)
    with Cons show ?thesis by simp
  qed
  have "sorted_wrt (\<lambda>a b. key a \<ge> key b) (rev (x # acc) @ xs)"
    using Cons.prems by simp
  from Cons.IH [OF this] il show ?case by simp
qed

lemma sort_Slice_sorted_id:
  fixes key :: "'a \<Rightarrow> 'k::linorder"
  assumes "sorted_wrt (\<lambda>a b. key a \<ge> key b) xs"
  shows "sort_Slice (\<lambda>a b. key a > key b) xs = xs"
  using foldl_insert_left_sorted [of key "[]" xs] assms by (simp add: sort_Slice_def)


section \<open>The ranking engine\<close>

lemma length_scoredStreams: "length (scoredStreams e cfg streams) = length streams"
  by (simp add: scoredStreams_def Let_def assignSizeScores_def sortedBySize_def
      parsedStreams_def length_sort_Slice)

lemma filterStreams_no_filter: "filterStreams e cfg xs item False False = xs"
  by (simp add: filterStreams_def)

lemma find_sr_map:
  "(\<And>r. sr_ID (f r) = sr_ID r) \<Longrightarrow>
   find (\<lambda>w. sr_ID w = i) (map f ws) = map_option f (find (\<lambda>w. sr_ID w = i) ws)"
  by (induction ws) auto

lemma SaveScrapeResult_ok:
  assumes "faults d = []" and "sr_InfoHash r \<noteq> None"
  shows "\<exists>newid d'. SaveScrapeResult now r d = (Inr newid, d') \<and> faults d' = []
     \<and> (\<exists>row \<in> set (scrape_results d'). sr_ID row = newid
           \<and> WatchlistItemID row = WatchlistItemID r
           \<and> sr_InfoHash row = sr_InfoHash r \<and> ScrapedScore row = ScrapedScore r
           \<and> StatusResults row = StatusResults r)"
proof (cases "find (\<lambda>row. WatchlistItemID row = WatchlistItemID r
                          \<and> sr_InfoHash row = sr_InfoHash r) (scrape_results d)")
  case None
  with assms show ?thesis
    by (simp add: SaveScrapeResult_def Let_def driver_call_ok)
next
  case (Some row)
  then have row: "row \<in> set (scrape_results d)" "WatchlistItemID row = WatchlistItemID r"
    "sr_InfoHash row = sr_InfoHash r"
    by (auto simp: find_Some_iff)
  let ?f = "\<lambda>x. if sr_ID x = sr_ID row then write_result now (r\<lparr>sr_ID := sr_ID row\<rparr>) x else x"
  have "?f row \<in> set (map ?f (scrape_results d))" using row(1) by (auto intro!: image_eqI[of _ _ row])
  with assms Some row show ?thesis
    by (auto simp: SaveScrapeResult_def Let_def driver_call_ok UpdateScrapeResult_def
        write_result_def intro!: bexI[of _ "?f row"])
qed

lemma reparse_idem: "reparse e cfg (reparse e cfg s) = reparse e cfg s"
  by (simp add: reparse_def Let_def calculateScore_def calculateBaseScore_def)

lemma reparse_change:
  "reparse e cfg (s\<lparr>Parsed := p, Score := k\<rparr>) = reparse e cfg s"
  "reparse e cfg (s\<lparr>Score := k\<rparr>) = reparse e cfg s"
  "reparse e cfg (setSizeScore v s) = reparse e cfg s"
  by (simp_all add: reparse_def Let_def calculateScore_def calculateBaseScore_def setSizeScore_def)

lemma map_list_update_same:
  "f y = f (xs ! i) \<Longrightarrow> map f (xs[i := y]) = map f xs"
  by (metis list_update_id map_update)

lemma map_reparse_assign:
  "map (reparse e cfg) (assignSizeScores cfg closest xs) = map (reparse e cfg) xs"
  by (simp add: assignSizeScores_def Let_def map_list_update_same reparse_change)

lemma parsedStreams_map: "parsedStreams e cfg xs = map (reparse e cfg) xs"
  by (simp add: parsedStreams_def reparse_def)

lemma reparse_fix_sorted:
  "map (reparse e cfg) (sortedBySize e cfg streams) = sortedBySize e cfg streams"
proof -
  have "\<forall>x \<in> set (sortedBySize e cfg streams). reparse e cfg x = x"
    by (auto simp: sortedBySize_def set_sort_Slice parsedStreams_map reparse_idem)
  then show ?thesis by (simp add: map_idI)
qed

lemma parsedStreams_scoredStreams:
  "parsedStreams e cfg (scoredStreams e cfg streams) = sortedBySize e cfg streams"
proof -
  have "map (reparse e cfg) (scoredStreams e cfg streams)
        = map (reparse e cfg) (sortedBySize e cfg streams)"
    by (simp add: scoredStreams_def Let_def map_reparse_assign reparse_change o_def)
  then show ?thesis by (simp add: parsedStreams_map reparse_fix_sorted)
qed

lemma sortedBySize_scoredStreams:
  "sortedBySize e cfg (scoredStreams e cfg streams) = sortedBySize e cfg streams"
proof -
  have "sorted_wrt (\<lambda>a b. convertToGB e (FileSize (Parsed a)) \<ge> convertToGB e (FileSize (Parsed b)))
          (sortedBySize e cfg streams)"
    unfolding sortedBySize_def by (rule sorted_sort_Slice)
  then have "sort_Slice (\<lambda>a b. convertToGB e (FileSize (Parsed a)) > convertToGB e (FileSize (Parsed b)))
          (sortedBySize e cfg streams) = sortedBySize e cfg streams"
    by (rule sort_Slice_sorted_id)
  then show ?thesis
    by (simp add: sortedBySize_def [of e cfg "scoredStreams e cfg streams"]
        parsedStreams_scoredStreams)
qed

lemma scoredStreams_idem:
  "scoredStreams e cfg (scoredStreams e cfg streams) = scoredStreams e cfg streams"
  by (simp add: scoredStreams_def [of e cfg "scoredStreams e cfg streams"]
      sortedBySize_scoredStreams) (simp add: scoredStreams_def)

lemma rankedStreams_rerun:
  "rankedStreams e cfg (scoredStreams e cfg streams) item = rankedStreams e cfg streams item"
  by (simp add: rankedStreams_def scoredStreams_idem)

lemma rankedStreams_nonempty:
  assumes "streams \<noteq> []"
  shows "rankedStreams e cfg streams item \<noteq> []"
proof -
  have "scoredStreams e cfg streams \<noteq> []"
    using assms length_scoredStreams [of e cfg streams] by auto
  then show ?thesis
    by (auto simp: rankedStreams_def Let_def sort_Slice_Nil_iff filterStreams_no_filter)
qed

lemma processStreams_saves:
  assumes "streams \<noteq> []" and "faults d = []" and "rankedStreams e cfg streams item = b # rest"
  shows "fst (processStreams e cfg now streams item d) = None
     \<and> (\<exists>row \<in> set (scrape_results (snd (processStreams e cfg now streams item d))).
          WatchlistItemID row = wi_ID item \<and> sr_InfoHash row = Some (InfoHash b)
          \<and> ScrapedScore row = Some (word_of_int (Score b))
          \<and> StatusResults row = Some ''ready_for_download'')"
proof -
  obtain newid d' where sv: "SaveScrapeResult now (scrapeResultOf now item b) d = (Inr newid, d')"
    and rw: "\<exists>row \<in> set (scrape_results d'). sr_ID row = newid
         \<and> WatchlistItemID row = WatchlistItemID (scrapeResultOf now item b)
         \<and> sr_InfoHash row = sr_InfoHash (scrapeResultOf now item b)
         \<and> ScrapedScore row = ScrapedScore (scrapeResultOf now item b)
         \<and> StatusResults row = StatusResults (scrapeResultOf now item b)"
    using SaveScrapeResult_ok [OF assms(2), of "scrapeResultOf now item b" now]
    by (auto simp: scrapeResultOf_def)
  show ?thesis
    using assms(1,3) sv rw by (auto simp: processStreams_def scrapeResultOf_def)
qed


text \<open>
  Claim C4. When the size filter removes every stream of a non-empty list,
  \<open>processStreams\<close> ranks the whole scored list instead: the stream it selects is one of
  the scored streams and no scored stream has a higher total score; it does not return
  the error for an empty list, and when the driver does not fail it returns no error
  and leaves a scrape result of the item with the hash and the score of that stream.
\<close>

theorem filter_fallback:
  assumes "streams \<noteq> []"
    and "filterStreams e cfg (scoredStreams e cfg streams) item True False = []"
  shows "\<exists>bestMatch rest. rankedStreams e cfg streams item = bestMatch # rest
      \<and> bestMatch \<in> set (scoredStreams e cfg streams)
      \<and> (\<forall>s \<in> set (scoredStreams e cfg streams). Score s \<le> Score bestMatch)
      \<and> fst (processStreams e cfg now streams item d) \<noteq> Some NoStreamsFound
      \<and> (faults d = [] \<longrightarrow> fst (processStreams e cfg now streams item d) = None
           \<and> (\<exists>row \<in> set (scrape_results (snd (processStreams e cfg now streams item d))).
                WatchlistItemID row = wi_ID item \<and> sr_InfoHash row = Some (InfoHash bestMatch)
                \<and> ScrapedScore row = Some (word_of_int (Score bestMatch))
                \<and> StatusResults row = Some ''ready_for_download''))"
proof -
  let ?scored = "scoredStreams e cfg streams"
  have ne: "?scored \<noteq> []" using assms(1) length_scoredStreams [of e cfg streams] by auto
  have r: "rankedStreams e cfg streams item = sort_Slice (\<lambda>a b. Score a > Score b) ?scored"
    using assms(2) by (simp add: rankedStreams_def Let_def filterStreams_no_filter)
  then obtain b rest where br: "rankedStreams e cfg streams item = b # rest"
    using ne sort_Slice_Nil_iff by (metis list.exhaust)
  have mx: "b \<in> set ?scored \<and> (\<forall>s \<in> set ?scored. Score s \<le> Score b)"
    using sort_Slice_head_max [of Score ?scored b rest] br r by simp
  have ok: "faults d = [] \<Longrightarrow> fst (processStreams e cfg now streams item d) = None
           \<and> (\<exists>row \<in> set (scrape_results (snd (processStreams e cfg now streams item d))).
                WatchlistItemID row = wi_ID item \<and> sr_InfoHash row = Some (InfoHash b)
                \<and> ScrapedScore row = Some (word_of_int (Score b))
                \<and> StatusResults row = Some ''ready_for_download'')"
  proof -
    assume f: "faults d = []"
    obtain newid d' where sv: "SaveScrapeResult now (scrapeResultOf now item b) d = (Inr newid, d')"
      and rw: "\<exists>row \<in> set (scrape_results d'). sr_ID row = newid
           \<and> WatchlistItemID row = WatchlistItemID (scrapeResultOf now item b)
           \<and> sr_InfoHash row = sr_InfoHash (scrapeResultOf now item b)
           \<and> ScrapedScore row = ScrapedScore (scrapeResultOf now item b)
           \<and> StatusResults row = StatusResults (scrapeResultOf now item b)"
      using SaveScrapeResult_ok [OF f, of "scrapeResultOf now item b" now]
      by (auto simp: scrapeResultOf_def)
    show ?thesis
      using assms(1) br sv rw by (auto simp: processStreams_def scrapeResultOf_def)
  qed
  have nf: "fst (processStreams e cfg now streams item d) \<noteq> Some NoStreamsFound"
    using assms(1) br by (auto simp: processStreams_def split: prod.splits sum.splits)
  show ?thesis using br mx ok nf by blast
qed


theorem filter_fallback_witness:
  "fallback_streams \<noteq> []
   \<and> filterStreams example_env example_config
        (scoredStreams example_env example_config fallback_streams) example_item True False = []
   \<and> faults example_db = []
   \<and> map InfoHash (rankedStreams example_env example_config fallback_streams example_item) = [''h5'', ''h6'']
   \<and> map Score (rankedStreams example_env example_config fallback_streams example_item) = [2300, 2000]
   \<and> fst (processStreams example_env example_config 100 fallback_streams example_item example_db) = None
   \<and> (\<exists>row \<in> set (scrape_results (snd (processStreams example_env example_config 100
                      fallback_streams example_item example_db))).
         WatchlistItemID row = 1 \<and> sr_InfoHash row = Some ''h5'' \<and> ScrapedScore row = Some 2300)"
proof -
  have h1: "fallback_streams \<noteq> []" by (simp add: fallback_streams_def)
  have h2: "filterStreams example_env example_config
        (scoredStreams example_env example_config fallback_streams) example_item True False = []"
    by code_simp
  have h3: "faults example_db = []" by (simp add: example_db_def)
  have h4: "map InfoHash (rankedStreams example_env example_config fallback_streams example_item) = [''h5'', ''h6'']"
    by code_simp
  have h5: "map Score (rankedStreams example_env example_config fallback_streams example_item) = [2300, 2000]"
    by code_simp
  have h6: "wi_ID example_item = 1" by (simp add: example_item_def)
  from filter_fallback [OF h1 h2, of 100 example_db] h3
  obtain bestMatch rest where
    br: "rankedStreams example_env example_config fallback_streams example_item = bestMatch # rest"
    and ok: "fst (processStreams example_env example_config 100 fallback_streams example_item example_db) = None"
    and row: "\<exists>row \<in> set (scrape_results (snd (processStreams example_env example_config 100
                      fallback_streams example_item example_db))).
         WatchlistItemID row = wi_ID example_item \<and> sr_InfoHash row = Some (InfoHash bestMatch)
         \<and> ScrapedScore row = Some (word_of_int (Score bestMatch))
         \<and> StatusResults row = Some ''ready_for_download''"
    by blast
  have "InfoHash bestMatch = ''h5''" "Score bestMatch = 2300"
    using br h4 h5 by simp_all
  with row h6 have "\<exists>row \<in> set (scrape_results (snd (processStreams example_env example_config 100
                      fallback_streams example_item example_db))).
         WatchlistItemID row = 1 \<and> sr_InfoHash row = Some ''h5'' \<and> ScrapedScore row = Some 2300"
    by auto
  with h1 h2 h3 h4 h5 ok show ?thesis by blast
qed


lemma convertToGB_unparsed: "\<not> parses_as_size e sizeStr \<Longrightarrow> convertToGB e sizeStr = 0"
  by (auto simp: parses_as_size_def convertToGB_def Let_def unit_to_GB_def split: option.splits)

lemma f64_not_le_zero: "\<not> f64_le m (Fin 0) \<Longrightarrow> m \<noteq> NaN \<Longrightarrow> f64_lt (Fin 0) m"
  by (cases m) auto

lemma validate_Min_pos:
  assumes "validateFilesizeConfig cfg = None"
    and "Min (MovieFilesize cfg) \<noteq> NaN" and "Min (ShowFilesize cfg) \<noteq> NaN"
  shows "f64_lt (Fin 0) (Min (MovieFilesize cfg)) \<and> f64_lt (Fin 0) (Min (ShowFilesize cfg))"
proof -
  from assms(1) have "\<not> f64_le (Min (MovieFilesize cfg)) (Fin 0)"
    and "\<not> f64_le (Min (ShowFilesize cfg)) (Fin 0)"
    by (auto simp: validateFilesizeConfig_def split: if_splits)
  with assms(2,3) show ?thesis by (simp add: f64_not_le_zero)
qed

lemma filterStreams_size_zero:
  assumes "validateFilesizeConfig cfg = None"
    and "Min (MovieFilesize cfg) \<noteq> NaN" and "Min (ShowFilesize cfg) \<noteq> NaN"
    and "convertToGB e (FileSize (Parsed s)) = 0"
  shows "s \<notin> set (filterStreams e cfg xs item True useUploader)"
  using validate_Min_pos [OF assms(1,2,3)] assms(4)
  by (auto simp: filterStreams_def Let_def)

text \<open>
  Claim C9, for the ranking of \<open>processStreams\<close> and minimum sizes that are not NaN.
  Under a configuration that \<open>validateFilesizeConfig\<close> accepts and whose two minimum
  sizes are not NaN, a stream whose size string does not parse has size 0, is never in
  the result of \<open>filterStreams\<close> with the size filter on, and is among the ranked streams
  only when the size filter left nothing and the unfiltered list was ranked.
\<close>

theorem unparsed_size_rejected:
  assumes "validateFilesizeConfig cfg = None"
    and "Min (MovieFilesize cfg) \<noteq> NaN" and "Min (ShowFilesize cfg) \<noteq> NaN"
    and "\<not> parses_as_size e (FileSize (Parsed s))"
  shows "convertToGB e (FileSize (Parsed s)) = 0
     \<and> s \<notin> set (filterStreams e cfg xs item True useUploader)
     \<and> (s \<in> set (rankedStreams e cfg streams item) \<longrightarrow>
          filterStreams e cfg (scoredStreams e cfg streams) item True False = []
          \<and> s \<in> set (filterStreams e cfg (scoredStreams e cfg streams) item False False))"
proof -
  have z: "convertToGB e (FileSize (Parsed s)) = 0"
    using assms(4) by (rule convertToGB_unparsed)
  have nf: "\<And>ys u. s \<notin> set (filterStreams e cfg ys item True u)"
    using assms(1,2,3) z by (rule filterStreams_size_zero)
  have "filterStreams e cfg (scoredStreams e cfg streams) item True False = []
        \<and> s \<in> set (filterStreams e cfg (scoredStreams e cfg streams) item False False)"
    if "s \<in> set (rankedStreams e cfg streams item)"
  proof (cases "filterStreams e cfg (scoredStreams e cfg streams) item True False = []")
    case True
    with that show ?thesis by (simp add: rankedStreams_def Let_def set_sort_Slice)
  next
    case False
    with that have "s \<in> set (filterStreams e cfg (scoredStreams e cfg streams) item True False)"
      by (simp add: rankedStreams_def Let_def set_sort_Slice)
    with nf show ?thesis by blast
  qed
  with z nf show ?thesis by blast
qed

theorem unparsed_size_rejected_witness:
  "validateFilesizeConfig example_config = None
   \<and> Min (MovieFilesize example_config) \<noteq> NaN
   \<and> Min (ShowFilesize example_config) \<noteq> NaN
   \<and> \<not> parses_as_size example_env (FileSize (Parsed (last
            (rankedStreams example_env example_config fallback_streams example_item))))
   \<and> last (rankedStreams example_env example_config fallback_streams example_item)
        \<in> set (rankedStreams example_env example_config fallback_streams example_item)
   \<and> convertToGB example_env (FileSize (Parsed (last
            (rankedStreams example_env example_config fallback_streams example_item)))) = 0
   \<and> filterStreams example_env example_config
        (scoredStreams example_env example_config fallback_streams) example_item True False = []"
proof -
  let ?s = "last (rankedStreams example_env example_config fallback_streams example_item)"
  have w1: "validateFilesizeConfig example_config = None" by code_simp
  have n1: "Min (MovieFilesize example_config) \<noteq> NaN" by code_simp
  have n2: "Min (ShowFilesize example_config) \<noteq> NaN" by code_simp
  have w2: "\<not> parses_as_size example_env (FileSize (Parsed ?s))" by code_simp
  have w3: "?s \<in> set (rankedStreams example_env example_config fallback_streams example_item)"
    by code_simp
  show ?thesis
    using w1 n1 n2 w2 w3
      unparsed_size_rejected [OF w1 n1 n2 w2, of "[]" example_item False fallback_streams]
    by blast
qed

text \<open>
  Claim C9 as it is worded fails at two inputs. A configuration whose movie minimum is
  NaN passes \<open>validateFilesizeConfig\<close>, since both of its comparisons are false; under
  it the stream \<open>h6\<close>, whose size does not parse, passes the size filter and is the
  ranked choice without the fallback. And the episode loop of \<open>scrapeTVShow\<close> has no
  size filter: under the example configuration it selects \<open>e2\<close>, whose size does not
  parse.
\<close>

theorem unparsed_size_counterexample:
  "validateFilesizeConfig nan_config = None
   \<and> \<not> parses_as_size example_env (FileSize (parseStreamInfo example_env ''Alpha cam''))
   \<and> map InfoHash (filterStreams example_env nan_config
          (scoredStreams example_env nan_config fallback_streams) example_item True False) = [''h6'']
   \<and> map InfoHash (rankedStreams example_env nan_config fallback_streams example_item) = [''h6'']
   \<and> validateFilesizeConfig example_config = None
   \<and> \<not> parses_as_size series_env (FileSize (parseStreamInfo series_env ''Series S01E02 1080p''))
   \<and> map sr_InfoHash (scrape_results
          (snd (scrapeTVShow series_env example_config 500 series_item series_db))) = [Some ''e2'']"
proof -
  have a: "validateFilesizeConfig nan_config = None" by code_simp
  have b: "\<not> parses_as_size example_env (FileSize (parseStreamInfo example_env ''Alpha cam''))"
    by code_simp
  have c: "map InfoHash (filterStreams example_env nan_config
          (scoredStreams example_env nan_config fallback_streams) example_item True False) = [''h6'']"
    by code_simp
  have d: "map InfoHash (rankedStreams example_env nan_config fallback_streams example_item) = [''h6'']"
    by code_simp
  have e: "validateFilesizeConfig example_config = None" by code_simp
  have f: "\<not> parses_as_size series_env (FileSize (parseStreamInfo series_env ''Series S01E02 1080p''))"
    by code_simp
  have g: "map sr_InfoHash (scrape_results
          (snd (scrapeTVShow series_env example_config 500 series_item series_db))) = [Some ''e2'']"
    by code_simp
  show ?thesis using a b c d e f g by blast
qed


text \<open>
  Claim C8. The slice that one run of \<open>processStreams\<close> leaves behind (sorted by size,
  with its scores) is ranked exactly as the original list, and a second run on it
  returns what a run on the original returns. The ranking of a non-empty list has a
  first stream that depends on the list, the item and the configuration only: whatever
  the database and the clock, a run without driver failures returns no error and
  leaves a scrape result with that stream's hash and score.
\<close>

theorem ranking_deterministic:
  "rankedStreams e cfg (scoredStreams e cfg streams) item = rankedStreams e cfg streams item
   \<and> processStreams e cfg now (scoredStreams e cfg streams) item d
       = processStreams e cfg now streams item d
   \<and> (streams \<noteq> [] \<longrightarrow>
        (\<exists>bestMatch rest. rankedStreams e cfg streams item = bestMatch # rest
           \<and> (\<forall>d1 t1. faults d1 = [] \<longrightarrow>
                 fst (processStreams e cfg t1 streams item d1) = None
                 \<and> (\<exists>row \<in> set (scrape_results (snd (processStreams e cfg t1 streams item d1))).
                      WatchlistItemID row = wi_ID item
                      \<and> sr_InfoHash row = Some (InfoHash bestMatch)
                      \<and> ScrapedScore row = Some (word_of_int (Score bestMatch))))))"
proof -
  have a: "rankedStreams e cfg (scoredStreams e cfg streams) item = rankedStreams e cfg streams item"
    by (rule rankedStreams_rerun)
  have b: "processStreams e cfg now (scoredStreams e cfg streams) item d
       = processStreams e cfg now streams item d"
    by (simp add: processStreams_def a length_scoredStreams)
  have c: "\<exists>bestMatch rest. rankedStreams e cfg streams item = bestMatch # rest
           \<and> (\<forall>d1 t1. faults d1 = [] \<longrightarrow>
                 fst (processStreams e cfg t1 streams item d1) = None
                 \<and> (\<exists>row \<in> set (scrape_results (snd (processStreams e cfg t1 streams item d1))).
                      WatchlistItemID row = wi_ID item
                      \<and> sr_InfoHash row = Some (InfoHash bestMatch)
                      \<and> ScrapedScore row = Some (word_of_int (Score bestMatch))))"
    if ne: "streams \<noteq> []"
  proof -
    obtain bm rest where br: "rankedStreams e cfg streams item = bm # rest"
      using rankedStreams_nonempty [OF ne, of e cfg item] by (cases "rankedStreams e cfg streams item") auto
    show ?thesis
      using processStreams_saves [OF ne _ br] br by blast
  qed
  show ?thesis using a b c by blast
qed


theorem ranking_deterministic_witness:
  "alpha_streams \<noteq> [] \<and> faults example_db = []
   \<and> rankedStreams example_env tier_config (scoredStreams example_env tier_config alpha_streams) example_item
       = rankedStreams example_env tier_config alpha_streams example_item
   \<and> fst (processStreams example_env tier_config 100 alpha_streams example_item example_db) = None
   \<and> fst (processStreams example_env tier_config 200 alpha_streams example_item example_db) = None"
proof -
  have h1: "alpha_streams \<noteq> []" by (simp add: alpha_streams_def)
  have h2: "faults example_db = []" by (simp add: example_db_def)
  show ?thesis
    using h1 h2 ranking_deterministic [of example_env tier_config alpha_streams example_item 100 example_db]
    by blast
qed

section \<open>The daily check for new episodes\<close>

lemma UpdateWatchlistItem_ok:
  "faults d = [] \<Longrightarrow>
   UpdateWatchlistItem now item d =
     (None, d\<lparr>watchlistitem :=
              map (\<lambda>row. if wi_ID row = wi_ID item then write_item now item row else row)
                (watchlistitem d)\<rparr>)"
  by (simp add: UpdateWatchlistItem_def driver_call_ok)

lemma reset_fold:
  assumes "faults d = []"
  shows "let d' = foldl (\<lambda>d2 item. snd (UpdateWatchlistItem now (resetForIndexing now item) d2)) d items
         in faults d' = [] \<and> tv_episodes d' = tv_episodes d \<and> seasons d' = seasons d
            \<and> scrape_results d' = scrape_results d
            \<and> list_all2 (reset_rel (wi_ID ` set items)) (watchlistitem d) (watchlistitem d')"
proof (induction items rule: rev_induct)
  case Nil
  then show ?case using assms by (simp add: reset_rel_def list_all2_refl)
next
  case (snoc i items)
  let ?step = "\<lambda>d2 item. snd (UpdateWatchlistItem now (resetForIndexing now item) d2)"
  let ?d1 = "foldl ?step d items"
  have ih: "faults ?d1 = []" "tv_episodes ?d1 = tv_episodes d" "seasons ?d1 = seasons d"
    "scrape_results ?d1 = scrape_results d"
    "list_all2 (reset_rel (wi_ID ` set items)) (watchlistitem d) (watchlistitem ?d1)"
    using snoc by (simp_all add: Let_def)
  let ?f = "\<lambda>row. if wi_ID row = wi_ID i then write_item now (resetForIndexing now i) row else row"
  have st: "?step ?d1 i = ?d1\<lparr>watchlistitem := map ?f (watchlistitem ?d1)\<rparr>"
    using ih(1) by (simp add: UpdateWatchlistItem_ok resetForIndexing_def)
  have "list_all2 (reset_rel (wi_ID ` set (items @ [i]))) (watchlistitem d) (map ?f (watchlistitem ?d1))"
    using ih(5)
    by (auto simp: list_all2_map2 reset_rel_def write_item_def resetForIndexing_def String_def
        elim!: list_all2_mono)
  then show ?case using ih(1-4) st by (simp add: Let_def)
qed

lemma list_all2_setD2: "list_all2 P xs ys \<Longrightarrow> y \<in> set ys \<Longrightarrow> \<exists>x \<in> set xs. P x y"
  by (induction rule: list_all2_induct) auto

lemma GetReturning_ids:
  assumes "faults d = []"
  shows "\<exists>items. GetReturningSeriesWithUnscrapedEpisodes today d = (Inr items, d)
     \<and> wi_ID ` set items
         = wi_ID ` {w \<in> set (watchlistitem d). ShowStatus w = Some ''Returning Series''
                       \<and> has_unscraped_aired_episode today d w}"
  using assms
  by (simp add: GetReturningSeriesWithUnscrapedEpisodes_def driver_call_ok set_sort_Slice
      image_image)


text \<open>
  Claim C6, as the code has it. When the driver does not fail, \<open>checkForNewEpisodes\<close>
  changes no episode, season or scrape result and keeps the rows of \<open>watchlistitem\<close>
  in place. A row whose id is that of a returning series with an aired, unscraped
  episode ends with status \<open>new\<close> and current step \<open>indexing_pending\<close>: the whole item
  goes back to indexing. Every other row is unchanged.
\<close>

theorem rescan_resets_item:
  assumes "faults d = []"
  shows "tv_episodes (checkForNewEpisodes now today d) = tv_episodes d
     \<and> seasons (checkForNewEpisodes now today d) = seasons d
     \<and> scrape_results (checkForNewEpisodes now today d) = scrape_results d
     \<and> map wi_ID (watchlistitem (checkForNewEpisodes now today d)) = map wi_ID (watchlistitem d)
     \<and> (\<forall>w' \<in> set (watchlistitem (checkForNewEpisodes now today d)).
          if (\<exists>w \<in> set (watchlistitem d). wi_ID w = wi_ID w'
                \<and> ShowStatus w = Some ''Returning Series''
                \<and> has_unscraped_aired_episode today d w)
          then Status w' = Some ''new'' \<and> CurrentStep w' = Some ''indexing_pending''
          else w' \<in> set (watchlistitem d))"
proof -
  obtain items where g: "GetReturningSeriesWithUnscrapedEpisodes today d = (Inr items, d)"
    and ids: "wi_ID ` set items
         = wi_ID ` {w \<in> set (watchlistitem d). ShowStatus w = Some ''Returning Series''
                       \<and> has_unscraped_aired_episode today d w}"
    using GetReturning_ids [OF assms] by blast
  let ?d' = "checkForNewEpisodes now today d"
  have d': "?d' = foldl (\<lambda>d2 item. snd (UpdateWatchlistItem now (resetForIndexing now item) d2)) d items"
    using g by (simp add: checkForNewEpisodes_def)
  have fold: "tv_episodes ?d' = tv_episodes d" "seasons ?d' = seasons d"
    "scrape_results ?d' = scrape_results d"
    "list_all2 (reset_rel (wi_ID ` set items)) (watchlistitem d) (watchlistitem ?d')"
    using reset_fold [OF assms, of now items] d' by (simp_all add: Let_def)
  have idmap: "map wi_ID (watchlistitem ?d') = map wi_ID (watchlistitem d)"
    using fold(4)
    by (induction rule: list_all2_induct) (simp_all add: reset_rel_def)
  have rows: "if (\<exists>w \<in> set (watchlistitem d). wi_ID w = wi_ID w'
                \<and> ShowStatus w = Some ''Returning Series''
                \<and> has_unscraped_aired_episode today d w)
          then Status w' = Some ''new'' \<and> CurrentStep w' = Some ''indexing_pending''
          else w' \<in> set (watchlistitem d)"
    if wmem: "w' \<in> set (watchlistitem ?d')" for w'
  proof -
    obtain w where w: "w \<in> set (watchlistitem d)" "reset_rel (wi_ID ` set items) w w'"
      using list_all2_setD2 [OF fold(4) wmem] by blast
    have wid: "wi_ID w' = wi_ID w" using w(2) by (simp add: reset_rel_def)
    have eq: "(\<exists>v \<in> set (watchlistitem d). wi_ID v = wi_ID w'
                \<and> ShowStatus v = Some ''Returning Series''
                \<and> has_unscraped_aired_episode today d v) \<longleftrightarrow> wi_ID w \<in> wi_ID ` set items"
      unfolding ids wid by (auto simp: image_iff)
    show ?thesis
    proof (cases "wi_ID w \<in> wi_ID ` set items")
      case True
      with eq have c: "\<exists>v \<in> set (watchlistitem d). wi_ID v = wi_ID w'
                \<and> ShowStatus v = Some ''Returning Series''
                \<and> has_unscraped_aired_episode today d v" by blast
      from True w(2) have "Status w' = Some ''new'' \<and> CurrentStep w' = Some ''indexing_pending''"
        by (simp add: reset_rel_def)
      then show ?thesis unfolding if_P [OF c] .
    next
      case False
      with eq have nc: "\<not> (\<exists>v \<in> set (watchlistitem d). wi_ID v = wi_ID w'
                \<and> ShowStatus v = Some ''Returning Series''
                \<and> has_unscraped_aired_episode today d v)" by blast
      from False w have "w' \<in> set (watchlistitem d)" by (simp add: reset_rel_def)
      then show ?thesis unfolding if_not_P [OF nc] .
    qed
  qed
  show ?thesis using fold(1-3) idmap rows by blast
qed

theorem rescan_resets_item_witness:
  "faults series_db = []
   \<and> series_item \<in> set (watchlistitem series_db)
   \<and> ShowStatus series_item = Some ''Returning Series''
   \<and> has_unscraped_aired_episode 500 series_db series_item
   \<and> tv_episodes (checkForNewEpisodes 500 500 series_db) = tv_episodes series_db
   \<and> map wi_ID (watchlistitem (checkForNewEpisodes 500 500 series_db)) = [1, 7]
   \<and> example_item \<in> set (watchlistitem (checkForNewEpisodes 500 500 series_db))"
proof -
  have f: "faults series_db = []" by (simp add: series_db_def)
  have a: "series_item \<in> set (watchlistitem series_db)" by (simp add: series_db_def)
  have b: "ShowStatus series_item = Some ''Returning Series''" by (simp add: series_item_def)
  have c: "has_unscraped_aired_episode 500 series_db series_item" by code_simp
  have e: "example_item \<in> set (watchlistitem (checkForNewEpisodes 500 500 series_db))"
    by code_simp
  have ids: "map wi_ID (watchlistitem series_db) = [1, 7]" by (simp add: series_db_def series_item_def example_item_def)
  show ?thesis
    using rescan_resets_item [OF f, of 500 500] a b c e f ids by simp
qed

text \<open>
  Claim C6 as stated fails for a returning series whose current step is
  \<open>symlink_completed\<close>: after the check its current step is \<open>indexing_pending\<close> and its
  status \<open>new\<close>, and no episode row has changed (nothing is re-admitted episode by
  episode).
\<close>

theorem rescan_counterexample:
  "CurrentStep series_item = Some ''symlink_completed''
   \<and> map CurrentStep (watchlistitem (checkForNewEpisodes 500 500 series_db))
       = [Some ''scrape_pending'', Some ''indexing_pending'']
   \<and> map Status (watchlistitem (checkForNewEpisodes 500 500 series_db))
       = [Some ''new'', Some ''new'']
   \<and> tv_episodes (checkForNewEpisodes 500 500 series_db) = tv_episodes series_db"
  by code_simp

section \<open>Season packs\<close>

lemma UpdateTVEpisode_ok:
  "faults d = [] \<Longrightarrow>
   UpdateTVEpisode episode d =
     (None, d\<lparr>tv_episodes :=
              map (\<lambda>row. if ep_ID row = ep_ID episode then write_episode episode row else row)
                (tv_episodes d)\<rparr>)"
  by (simp add: UpdateTVEpisode_def driver_call_ok)

lemma markEpisodes_foldl:
  "faults d = [] \<Longrightarrow> markEpisodes i eps d = (None, foldl (markEpisode i) d eps)"
proof (induction eps arbitrary: d)
  case Nil
  then show ?case by simp
next
  case (Cons ep eps)
  have "faults (markEpisode i d ep) = []"
    using Cons.prems by (simp add: markEpisode_def UpdateTVEpisode_ok)
  from Cons.IH [OF this] Cons.prems show ?case
    by (simp add: markEpisode_def UpdateTVEpisode_ok)
qed

lemma mark_fold:
  assumes "faults d = []"
  shows "let d' = foldl (markEpisode i) d eps
         in faults d' = [] \<and> watchlistitem d' = watchlistitem d \<and> seasons d' = seasons d
            \<and> scrape_results d' = scrape_results d
            \<and> list_all2 (mark_rel i (ep_ID ` set eps)) (tv_episodes d) (tv_episodes d')"
proof (induction eps rule: rev_induct)
  case Nil
  then show ?case using assms by (simp add: mark_rel_def list_all2_refl)
next
  case (snoc ep eps)
  let ?d1 = "foldl (markEpisode i) d eps"
  have ih: "faults ?d1 = []" "watchlistitem ?d1 = watchlistitem d" "seasons ?d1 = seasons d"
    "scrape_results ?d1 = scrape_results d"
    "list_all2 (mark_rel i (ep_ID ` set eps)) (tv_episodes d) (tv_episodes ?d1)"
    using snoc by (simp_all add: Let_def)
  let ?e = "ep\<lparr>ScrapeResultID := Some (word_of_int i), Scraped := True\<rparr>"
  let ?f = "\<lambda>row. if ep_ID row = ep_ID ep then write_episode ?e row else row"
  have st: "markEpisode i ?d1 ep = ?d1\<lparr>tv_episodes := map ?f (tv_episodes ?d1)\<rparr>"
    using ih(1) by (simp add: markEpisode_def UpdateTVEpisode_ok)
  have "list_all2 (mark_rel i (ep_ID ` set (eps @ [ep]))) (tv_episodes d) (map ?f (tv_episodes ?d1))"
    using ih(5)
    by (auto simp: list_all2_map2 mark_rel_def write_episode_def elim!: list_all2_mono)
  then show ?case using ih(1-4) st by (simp add: Let_def)
qed

lemma GetEpisodesForSeason_ok:
  "faults d = [] \<Longrightarrow>
   \<exists>eps. GetEpisodesForSeason sid d = (Inr eps, d) \<and> set eps = {ep \<in> set (tv_episodes d). SeasonID ep = sid}"
  by (auto simp: GetEpisodesForSeason_def driver_call_ok set_sort_Slice)

lemma SaveScrapeResult_frame:
  "faults d = [] \<Longrightarrow> SaveScrapeResult now r d = (res, d') \<Longrightarrow>
   tv_episodes d' = tv_episodes d \<and> watchlistitem d' = watchlistitem d \<and> seasons d' = seasons d"
  by (auto simp: SaveScrapeResult_def Let_def driver_call_ok UpdateScrapeResult_def
      split: if_splits option.splits)

lemma filterSeasonPackStreams_head:
  assumes "filterSeasonPackStreams streams sn cnt = pack # others"
  shows "pack \<in> set streams \<and> pi_Season (Parsed pack) = sn \<and> EpisodeCount (Parsed pack) = cnt
     \<and> (\<forall>s \<in> set streams. pi_Season (Parsed s) = sn \<and> EpisodeCount (Parsed s) = cnt
           \<longrightarrow> Score s \<le> Score pack)"
proof -
  let ?packs = "filter (\<lambda>stream. pi_Season (Parsed stream) = sn
                        \<and> EpisodeCount (Parsed stream) = cnt) streams"
  have "sort_Slice (\<lambda>a b. Score a > Score b) ?packs = pack # others"
    using assms by (simp add: filterSeasonPackStreams_def)
  from sort_Slice_head_max [OF this]
  have "pack \<in> set ?packs" "\<forall>s \<in> set ?packs. Score s \<le> Score pack" by simp_all
  then show ?thesis by auto
qed

lemma processSeasonPack_ok:
  assumes f: "faults d = []"
  shows "\<exists>scrapeResultID. fst (processSeasonPack now pack item season d) = None
     \<and> (\<exists>row \<in> set (scrape_results (snd (processSeasonPack now pack item season d))).
           sr_ID row = scrapeResultID \<and> WatchlistItemID row = wi_ID item
           \<and> sr_InfoHash row = Some (InfoHash pack)
           \<and> ScrapedScore row = Some (word_of_int (Score pack)))
     \<and> (\<forall>ep \<in> set (tv_episodes (snd (processSeasonPack now pack item season d))).
           SeasonID ep = se_ID season \<longrightarrow>
             Scraped ep \<and> ScrapeResultID ep = Some (word_of_int scrapeResultID))
     \<and> map ep_ID (tv_episodes (snd (processSeasonPack now pack item season d)))
         = map ep_ID (tv_episodes d)"
proof -
  let ?r = "seasonPackResult now item pack"
  obtain newid d1 where sv: "SaveScrapeResult now ?r d = (Inr newid, d1)" and f1: "faults d1 = []"
    and rw: "\<exists>row \<in> set (scrape_results d1). sr_ID row = newid
           \<and> WatchlistItemID row = WatchlistItemID ?r
           \<and> sr_InfoHash row = sr_InfoHash ?r \<and> ScrapedScore row = ScrapedScore ?r
           \<and> StatusResults row = StatusResults ?r"
    using SaveScrapeResult_ok [OF f, of ?r now] by (auto simp: seasonPackResult_def)
  have fr: "tv_episodes d1 = tv_episodes d"
    using SaveScrapeResult_frame [OF f sv] by simp
  obtain eps where ge: "GetEpisodesForSeason (se_ID season) d1 = (Inr eps, d1)"
    and es: "set eps = {ep \<in> set (tv_episodes d1). SeasonID ep = se_ID season}"
    using GetEpisodesForSeason_ok [OF f1] by blast
  let ?d2 = "foldl (markEpisode newid) d1 eps"
  have res: "processSeasonPack now pack item season d = (None, ?d2)"
    using sv ge f1 by (simp add: processSeasonPack_def markEpisodes_foldl)
  have fold: "scrape_results ?d2 = scrape_results d1"
    "list_all2 (mark_rel newid (ep_ID ` set eps)) (tv_episodes d1) (tv_episodes ?d2)"
    using mark_fold [OF f1, of newid eps] by (simp_all add: Let_def)
  have ids: "map ep_ID (tv_episodes ?d2) = map ep_ID (tv_episodes d1)"
    using fold(2) by (induction rule: list_all2_induct) (simp_all add: mark_rel_def)
  have marked: "Scraped ep \<and> ScrapeResultID ep = Some (word_of_int newid)"
    if m: "ep \<in> set (tv_episodes ?d2)" and s: "SeasonID ep = se_ID season" for ep
  proof -
    obtain r where r: "r \<in> set (tv_episodes d1)" "mark_rel newid (ep_ID ` set eps) r ep"
      using list_all2_setD2 [OF fold(2) m] by blast
    then have "SeasonID r = se_ID season" using s by (simp add: mark_rel_def)
    with r(1) es have "ep_ID r \<in> ep_ID ` set eps" by blast
    with r(2) show ?thesis by (simp add: mark_rel_def)
  qed
  show ?thesis
    using res rw fold(1) ids fr marked
    by (intro exI [of _ newid]) (auto simp: seasonPackResult_def)
qed


text \<open>
  What the two season-pack functions do when one is applied to the head of the other's
  result. When \<open>filterSeasonPackStreams\<close> returns a non-empty list for the season, its
  first stream is a season pack of that season among the candidates and no such pack
  has a higher score. \<open>processSeasonPack\<close> applied to it, when the driver does not fail,
  returns no error, leaves one scrape result with the pack's hash and score, and
  every episode row of the season is marked scraped and points at that one result.
  Neither function has a call site in \<open>internal/scraper/torrentio.go\<close>.
\<close>

lemma season_pack_functions:
  assumes "filterSeasonPackStreams streams seasonNumber expectedEpisodeCount = pack # others"
  shows "pack \<in> set streams
     \<and> pi_Season (Parsed pack) = seasonNumber \<and> EpisodeCount (Parsed pack) = expectedEpisodeCount
     \<and> (\<forall>s \<in> set streams.
           pi_Season (Parsed s) = seasonNumber \<and> EpisodeCount (Parsed s) = expectedEpisodeCount
           \<longrightarrow> Score s \<le> Score pack)
     \<and> (faults d = [] \<longrightarrow>
          (\<exists>scrapeResultID. fst (processSeasonPack now pack item season d) = None
     \<and> (\<exists>row \<in> set (scrape_results (snd (processSeasonPack now pack item season d))).
           sr_ID row = scrapeResultID \<and> WatchlistItemID row = wi_ID item
           \<and> sr_InfoHash row = Some (InfoHash pack)
           \<and> ScrapedScore row = Some (word_of_int (Score pack)))
     \<and> (\<forall>ep \<in> set (tv_episodes (snd (processSeasonPack now pack item season d))).
           SeasonID ep = se_ID season \<longrightarrow>
             Scraped ep \<and> ScrapeResultID ep = Some (word_of_int scrapeResultID))
     \<and> map ep_ID (tv_episodes (snd (processSeasonPack now pack item season d)))
         = map ep_ID (tv_episodes d)))"
  using filterSeasonPackStreams_head [OF assms] processSeasonPack_ok [of d now pack item season]
  by blast

section \<open>Scraping a show episode by episode\<close>

lemma driver_call_eq:
  "driver_call d = (g, d1) \<Longrightarrow>
   tv_episodes d1 = tv_episodes d \<and> scrape_results d1 = scrape_results d
   \<and> seasons d1 = seasons d \<and> watchlistitem d1 = watchlistitem d
   \<and> scrape_results_id_seq d1 = scrape_results_id_seq d"
  by (auto simp: driver_call_def split: list.splits)

lemma UpdateScrapeResult_tv:
  "UpdateScrapeResult now r d = (x, d1) \<Longrightarrow> tv_episodes d1 = tv_episodes d"
  by (auto simp: UpdateScrapeResult_def split: prod.splits if_splits dest: driver_call_eq)

lemma SaveScrapeResult_tv:
  "SaveScrapeResult now r d = (x, d1) \<Longrightarrow> tv_episodes d1 = tv_episodes d"
  by (auto simp: SaveScrapeResult_def Let_def split: prod.splits if_splits option.splits
      dest!: driver_call_eq UpdateScrapeResult_tv)

lemma UpdateTVEpisode_keeps:
  assumes "UpdateTVEpisode episode d = (x, d1)"
    and "f \<in> set (tv_episodes d)" and "ep_ID f \<noteq> ep_ID episode"
  shows "f \<in> set (tv_episodes d1)"
proof -
  obtain g d0 where dc: "driver_call d = (g, d0)" by (cases "driver_call d")
  then have t1: "tv_episodes d0 = tv_episodes d" using driver_call_eq by blast
  have "f \<in> (\<lambda>row. if ep_ID row = ep_ID episode then write_episode episode row else row)
              ` set (tv_episodes d)"
    using assms(2,3) by (auto intro!: image_eqI [of _ _ f])
  then show ?thesis
    using dc t1 assms(1,2) by (auto simp: UpdateTVEpisode_def split: if_splits)
qed

lemma UpdateTVEpisode_ids:
  assumes "UpdateTVEpisode episode d = (x, d1)"
  shows "map ep_ID (tv_episodes d1) = map ep_ID (tv_episodes d)"
proof -
  obtain g d0 where dc: "driver_call d = (g, d0)" by (cases "driver_call d")
  then have t1: "tv_episodes d0 = tv_episodes d" using driver_call_eq by blast
  have "map ep_ID (map (\<lambda>row. if ep_ID row = ep_ID episode then write_episode episode row else row)
          (tv_episodes d)) = map ep_ID (tv_episodes d)"
    by (simp add: write_episode_def o_def)
  then show ?thesis
    using dc t1 assms by (auto simp: UpdateTVEpisode_def split: if_splits)
qed

lemma saveForEpisode_keeps:
  assumes sv: "saveForEpisode status now item stream episode d = (x, d')"
    and "f \<in> set (tv_episodes d)" and "ep_ID f \<noteq> ep_ID episode"
  shows "f \<in> set (tv_episodes d')"
proof (cases "SaveScrapeResult now (episodeResult status now item stream) d")
  case (Pair r d1)
  then have t: "tv_episodes d1 = tv_episodes d" by (rule SaveScrapeResult_tv)
  show ?thesis
  proof (cases r)
    case (Inl err)
    with Pair t assms show ?thesis by (simp add: saveForEpisode_def)
  next
    case (Inr newid)
    let ?e = "episode\<lparr>ScrapeResultID := Some (word_of_int newid), Scraped := True\<rparr>"
    obtain y d2 where u: "UpdateTVEpisode ?e d1 = (y, d2)" by (cases "UpdateTVEpisode ?e d1")
    have "f \<in> set (tv_episodes d2)"
      using assms(2,3) t by (intro UpdateTVEpisode_keeps [OF u]) simp_all
    moreover have "d' = d2"
      using sv Pair Inr u by (cases y) (simp_all add: saveForEpisode_def)
    ultimately show ?thesis by simp
  qed
qed

lemma saveForEpisode_ids:
  assumes sv: "saveForEpisode status now item stream episode d = (x, d')"
  shows "map ep_ID (tv_episodes d') = map ep_ID (tv_episodes d)"
proof (cases "SaveScrapeResult now (episodeResult status now item stream) d")
  case (Pair r d1)
  then have t: "tv_episodes d1 = tv_episodes d" by (rule SaveScrapeResult_tv)
  show ?thesis
  proof (cases r)
    case (Inl err)
    with Pair t assms show ?thesis by (simp add: saveForEpisode_def)
  next
    case (Inr newid)
    let ?e = "episode\<lparr>ScrapeResultID := Some (word_of_int newid), Scraped := True\<rparr>"
    obtain y d2 where u: "UpdateTVEpisode ?e d1 = (y, d2)" by (cases "UpdateTVEpisode ?e d1")
    have "map ep_ID (tv_episodes d2) = map ep_ID (tv_episodes d)"
      using UpdateTVEpisode_ids [OF u] t by simp
    moreover have "d' = d2"
      using sv Pair Inr u by (cases y) (simp_all add: saveForEpisode_def)
    ultimately show ?thesis by simp
  qed
qed

lemma tvEpisodeStep_future:
  "notYetReleased now ep \<Longrightarrow> tvEpisodeStep e cfg now item streams st (ep, sn) = st"
  by (simp add: tvEpisodeStep_def)

lemma individualEpisodeStep_future:
  "notYetReleased now ep \<Longrightarrow> individualEpisodeStep e cfg now item season st ep = st"
  by (simp add: individualEpisodeStep_def)

text \<open>Either a step leaves the database alone, or its database is that of one
  saveForEpisode for the step's episode.\<close>

lemma tvEpisodeStep_cases:
  "snd (tvEpisodeStep e cfg now item streams st p) = snd st
   \<or> (\<not> notYetReleased now (fst p)
       \<and> (\<exists>status stream x. saveForEpisode status now item stream (fst p) (snd st)
              = (x, snd (tvEpisodeStep e cfg now item streams st p))))"
proof -
  let ?ss = "map (reparse e cfg) (filter (\<lambda>stream. Contains (Title stream)
                (episodePattern (snd p) (EpisodeNumber (fst p)))) streams)"
  let ?best = "sort_Slice (\<lambda>a b. Score a > Score b) ?ss ! 0"
  obtain x d1 where sv: "saveForEpisode ''scraped'' now item ?best (fst p) (snd st) = (x, d1)"
    by (cases "saveForEpisode ''scraped'' now item ?best (fst p) (snd st)")
  show ?thesis
    using sv by (cases x) (auto simp: tvEpisodeStep_def Let_def)
qed

lemma individualEpisodeStep_cases:
  "snd (snd (individualEpisodeStep e cfg now item season st p)) = snd (snd st)
   \<or> (\<not> notYetReleased now p
       \<and> (\<exists>status stream x. saveForEpisode status now item stream p (snd (snd st))
              = (x, snd (snd (individualEpisodeStep e cfg now item season st p)))))"
proof (cases "searchTorrentio e cfg item (episodePattern (SeasonNumber season) (EpisodeNumber p))")
  case (Inl err)
  then show ?thesis by (simp add: individualEpisodeStep_def Let_def)
next
  case (Inr ss)
  let ?best = "sort_Slice (\<lambda>a b. Score a > Score b) ss ! 0"
  obtain x d1 where sv: "saveForEpisode ''pending_download'' now item ?best p (snd (snd st)) = (x, d1)"
    by (cases "saveForEpisode ''pending_download'' now item ?best p (snd (snd st))")
  show ?thesis
    using sv Inr by (cases x) (auto simp: individualEpisodeStep_def Let_def)
qed

lemma tvEpisodeStep_keeps:
  assumes "f \<in> set (tv_episodes (snd st))"
    and "notYetReleased now (fst p) \<or> ep_ID f \<noteq> ep_ID (fst p)"
  shows "f \<in> set (tv_episodes (snd (tvEpisodeStep e cfg now item streams st p)))"
  using tvEpisodeStep_cases [of e cfg now item streams st p] assms
  by (auto dest: saveForEpisode_keeps)

lemma tvEpisodeStep_ids:
  "map ep_ID (tv_episodes (snd (tvEpisodeStep e cfg now item streams st p)))
   = map ep_ID (tv_episodes (snd st))"
  using tvEpisodeStep_cases [of e cfg now item streams st p]
  by (auto dest: saveForEpisode_ids)

lemma individualEpisodeStep_keeps:
  assumes "f \<in> set (tv_episodes (snd (snd st)))"
    and "notYetReleased now p \<or> ep_ID f \<noteq> ep_ID p"
  shows "f \<in> set (tv_episodes (snd (snd (individualEpisodeStep e cfg now item season st p))))"
  using individualEpisodeStep_cases [of e cfg now item season st p] assms
  by (auto dest: saveForEpisode_keeps)

lemma individualEpisodeStep_ids:
  "map ep_ID (tv_episodes (snd (snd (individualEpisodeStep e cfg now item season st p))))
   = map ep_ID (tv_episodes (snd (snd st)))"
  using individualEpisodeStep_cases [of e cfg now item season st p]
  by (auto dest: saveForEpisode_ids)

lemma tv_fold_keeps:
  assumes "\<forall>p \<in> set ps. notYetReleased now (fst p) \<or> ep_ID f \<noteq> ep_ID (fst p)"
    and "f \<in> set (tv_episodes (snd st))"
  shows "f \<in> set (tv_episodes (snd (foldl (tvEpisodeStep e cfg now item streams) st ps)))"
  using assms
proof (induction ps arbitrary: st)
  case Nil
  then show ?case by simp
next
  case (Cons p ps)
  have "f \<in> set (tv_episodes (snd (tvEpisodeStep e cfg now item streams st p)))"
    using Cons.prems by (intro tvEpisodeStep_keeps) simp_all
  with Cons show ?case by simp
qed

lemma tv_fold_ids:
  "map ep_ID (tv_episodes (snd (foldl (tvEpisodeStep e cfg now item streams) st ps)))
   = map ep_ID (tv_episodes (snd st))"
  by (induction ps arbitrary: st) (simp_all add: tvEpisodeStep_ids)

lemma tv_fold_all_future:
  "\<forall>p \<in> set ps. notYetReleased now (fst p) \<Longrightarrow>
   foldl (tvEpisodeStep e cfg now item streams) st ps = st"
  by (induction ps arbitrary: st) (auto simp: tvEpisodeStep_def)

lemma individual_fold_keeps:
  assumes "\<forall>p \<in> set ps. notYetReleased now p \<or> ep_ID f \<noteq> ep_ID p"
    and "f \<in> set (tv_episodes (snd (snd st)))"
  shows "f \<in> set (tv_episodes (snd (snd (foldl (individualEpisodeStep e cfg now item season) st ps))))"
  using assms
proof (induction ps arbitrary: st)
  case Nil
  then show ?case by simp
next
  case (Cons p ps)
  have "f \<in> set (tv_episodes (snd (snd (individualEpisodeStep e cfg now item season st p))))"
    using Cons.prems by (intro individualEpisodeStep_keeps) simp_all
  with Cons show ?case by simp
qed

lemma individual_fold_ids:
  "map ep_ID (tv_episodes (snd (snd (foldl (individualEpisodeStep e cfg now item season) st ps))))
   = map ep_ID (tv_episodes (snd (snd st)))"
  by (induction ps arbitrary: st) (simp_all add: individualEpisodeStep_ids)

lemma GetEpisodesForSeason_reads:
  "GetEpisodesForSeason sid d = (r, d1) \<Longrightarrow>
   tv_episodes d1 = tv_episodes d \<and> scrape_results d1 = scrape_results d
   \<and> (\<forall>eps. r = Inr eps \<longrightarrow> set eps \<subseteq> set (tv_episodes d))"
  by (auto simp: GetEpisodesForSeason_def set_sort_Slice split: prod.splits if_splits
      dest!: driver_call_eq)

lemma collectEpisodes_reads:
  "collectEpisodes ss d = (r, d1) \<Longrightarrow>
   tv_episodes d1 = tv_episodes d \<and> scrape_results d1 = scrape_results d
   \<and> (\<forall>all. r = Inr all \<longrightarrow> fst ` set all \<subseteq> set (tv_episodes d))"
proof (induction ss arbitrary: d r d1)
  case Nil
  then show ?case by auto
next
  case (Cons s ss)
  obtain r0 d0 where g: "GetEpisodesForSeason (se_ID s) d = (r0, d0)"
    by (cases "GetEpisodesForSeason (se_ID s) d")
  note g0 = GetEpisodesForSeason_reads [OF g]
  show ?case
  proof (cases r0)
    case (Inl err)
    with Cons.prems g g0 show ?thesis by auto
  next
    case (Inr eps)
    obtain r1 d2 where c: "collectEpisodes ss d0 = (r1, d2)" by (cases "collectEpisodes ss d0")
    note ih = Cons.IH [OF c]
    from Cons.prems g Inr c have rd: "d1 = d2"
      "r = (case r1 of Inl err \<Rightarrow> Inl err | Inr others \<Rightarrow> Inr (map (\<lambda>ep. (ep, SeasonNumber s)) eps @ others))"
      by (auto split: sum.splits)
    show ?thesis
      using ih g0 Inr rd by (auto split: sum.splits)
  qed
qed

lemma GetSeasonsForItem_reads:
  "GetSeasonsForItem i d = (r, d1) \<Longrightarrow>
   tv_episodes d1 = tv_episodes d \<and> scrape_results d1 = scrape_results d"
  by (auto simp: GetSeasonsForItem_def split: prod.splits if_splits dest!: driver_call_eq)

lemma distinct_ids_eq:
  "distinct (map ep_ID xs) \<Longrightarrow> x \<in> set xs \<Longrightarrow> y \<in> set xs \<Longrightarrow> ep_ID x = ep_ID y \<Longrightarrow> x = y"
  by (meson distinct_map inj_on_def)

text \<open>What scrapeTVShow does to the tables, as one fold from the tables it started with.\<close>

lemma scrapeTVShow_shape:
  "(tv_episodes (snd (scrapeTVShow e cfg now item d)) = tv_episodes d
     \<and> scrape_results (snd (scrapeTVShow e cfg now item d)) = scrape_results d)
   \<or> (\<exists>d2 all streams. tv_episodes d2 = tv_episodes d \<and> scrape_results d2 = scrape_results d
         \<and> fst ` set all \<subseteq> set (tv_episodes d)
         \<and> snd (scrapeTVShow e cfg now item d)
             = snd (foldl (tvEpisodeStep e cfg now item streams) (False, d2) all))"
proof -
  obtain r1 d1 where g: "GetSeasonsForItem (wi_ID item) d = (r1, d1)"
    by (cases "GetSeasonsForItem (wi_ID item) d")
  note g0 = GetSeasonsForItem_reads [OF g]
  show ?thesis
  proof (cases r1)
    case (Inl err)
    with g g0 show ?thesis by (simp add: scrapeTVShow_def)
  next
    case (Inr ss)
    obtain r2 d2 where c: "collectEpisodes ss d1 = (r2, d2)" by (cases "collectEpisodes ss d1")
    note c0 = collectEpisodes_reads [OF c]
    show ?thesis
    proof (cases r2)
      case (Inl err)
      with g Inr c c0 g0 show ?thesis by (simp add: scrapeTVShow_def)
    next
      case r2: (Inr all)
      show ?thesis
      proof (cases "fetch e (TorrentioURL cfg @ ''/stream/show/'' @ String (ImdbID item) @ ''.json'')")
        case None
        with g Inr c r2 c0 g0 show ?thesis by (simp add: scrapeTVShow_def)
      next
        case (Some streams)
        have "snd (scrapeTVShow e cfg now item d)
             = snd (foldl (tvEpisodeStep e cfg now item streams) (False, d2) all)"
          using g Inr c r2 Some by (simp add: scrapeTVShow_def Let_def)
        moreover have "tv_episodes d2 = tv_episodes d" "scrape_results d2 = scrape_results d"
          "fst ` set all \<subseteq> set (tv_episodes d)"
          using c0 g0 r2 by auto
        ultimately show ?thesis by blast
      qed
    qed
  qed
qed


text \<open>
  Claim C7. Let the episode ids be distinct (they are the table's primary key) and let
  an episode row have a valid air date after the current time. Then the iteration of
  either episode loop for it changes nothing: no scrape result is saved and the
  episode is not written. After \<open>scrapeTVShow\<close>, and after \<open>scrapeIndividualEpisodes\<close>
  on episodes of the table, the row is still there unchanged and is the row of its
  id; and when no episode of the table has been released, \<open>scrapeTVShow\<close> leaves the
  scrape results and the episodes as they were. This holds for every script of driver
  failures.
\<close>

theorem release_date_gating:
  assumes dist: "distinct (map ep_ID (tv_episodes d))"
    and mem: "ep \<in> set (tv_episodes d)"
    and fut: "notYetReleased now ep"
  shows "tvEpisodeStep e cfg now item streams st (ep, seasonNumber) = st
     \<and> individualEpisodeStep e cfg now item season st3 ep = st3
     \<and> ep \<in> set (tv_episodes (snd (scrapeTVShow e cfg now item d)))
     \<and> map ep_ID (tv_episodes (snd (scrapeTVShow e cfg now item d))) = map ep_ID (tv_episodes d)
     \<and> (set episodes \<subseteq> set (tv_episodes d) \<longrightarrow>
          ep \<in> set (tv_episodes (snd (scrapeIndividualEpisodes e cfg now item season episodes d)))
          \<and> map ep_ID (tv_episodes (snd (scrapeIndividualEpisodes e cfg now item season episodes d)))
              = map ep_ID (tv_episodes d))
     \<and> ((\<forall>x \<in> set (tv_episodes d). notYetReleased now x) \<longrightarrow>
          scrape_results (snd (scrapeTVShow e cfg now item d)) = scrape_results d
          \<and> tv_episodes (snd (scrapeTVShow e cfg now item d)) = tv_episodes d)"
proof -
  have other: "notYetReleased now p \<or> ep_ID ep \<noteq> ep_ID p" if "p \<in> set (tv_episodes d)" for p
    using distinct_ids_eq [OF dist mem that] fut by auto
  from scrapeTVShow_shape [of e cfg now item d]
  have tv: "ep \<in> set (tv_episodes (snd (scrapeTVShow e cfg now item d)))
     \<and> map ep_ID (tv_episodes (snd (scrapeTVShow e cfg now item d))) = map ep_ID (tv_episodes d)
     \<and> ((\<forall>x \<in> set (tv_episodes d). notYetReleased now x) \<longrightarrow>
          scrape_results (snd (scrapeTVShow e cfg now item d)) = scrape_results d
          \<and> tv_episodes (snd (scrapeTVShow e cfg now item d)) = tv_episodes d)"
  proof
    assume "tv_episodes (snd (scrapeTVShow e cfg now item d)) = tv_episodes d
     \<and> scrape_results (snd (scrapeTVShow e cfg now item d)) = scrape_results d"
    with mem show ?thesis by simp
  next
    assume "\<exists>d2 all streams. tv_episodes d2 = tv_episodes d \<and> scrape_results d2 = scrape_results d
         \<and> fst ` set all \<subseteq> set (tv_episodes d)
         \<and> snd (scrapeTVShow e cfg now item d)
             = snd (foldl (tvEpisodeStep e cfg now item streams) (False, d2) all)"
    then obtain d2 all ss where t: "tv_episodes d2 = tv_episodes d"
      and sr: "scrape_results d2 = scrape_results d"
      and sub: "fst ` set all \<subseteq> set (tv_episodes d)"
      and eq: "snd (scrapeTVShow e cfg now item d)
             = snd (foldl (tvEpisodeStep e cfg now item ss) (False, d2) all)"
      by blast
    have a: "\<forall>p \<in> set all. notYetReleased now (fst p) \<or> ep_ID ep \<noteq> ep_ID (fst p)"
      using sub other by auto
    have k: "ep \<in> set (tv_episodes (snd (foldl (tvEpisodeStep e cfg now item ss) (False, d2) all)))"
      using a mem t by (intro tv_fold_keeps) simp_all
    have i: "map ep_ID (tv_episodes (snd (foldl (tvEpisodeStep e cfg now item ss) (False, d2) all)))
       = map ep_ID (tv_episodes d)"
      using tv_fold_ids [of e cfg now item ss "(False, d2)" all] t by simp
    have f: "foldl (tvEpisodeStep e cfg now item ss) (False, d2) all = (False, d2)"
      if "\<forall>x \<in> set (tv_episodes d). notYetReleased now x"
      using that sub by (intro tv_fold_all_future) auto
    show ?thesis using k i f t sr eq by auto
  qed
  have ind: "ep \<in> set (tv_episodes (snd (scrapeIndividualEpisodes e cfg now item season episodes d)))
          \<and> map ep_ID (tv_episodes (snd (scrapeIndividualEpisodes e cfg now item season episodes d)))
              = map ep_ID (tv_episodes d)"
    if sub: "set episodes \<subseteq> set (tv_episodes d)"
  proof -
    have a: "\<forall>p \<in> set episodes. notYetReleased now p \<or> ep_ID ep \<noteq> ep_ID p"
      using sub other by auto
    have k: "ep \<in> set (tv_episodes (snd (snd (foldl (individualEpisodeStep e cfg now item season)
                 (False, None, d) episodes))))"
      using a mem by (intro individual_fold_keeps) simp_all
    have i: "map ep_ID (tv_episodes (snd (snd (foldl (individualEpisodeStep e cfg now item season)
                 (False, None, d) episodes)))) = map ep_ID (tv_episodes d)"
      using individual_fold_ids [of e cfg now item season "(False, None, d)" episodes] by simp
    show ?thesis using k i by (simp add: scrapeIndividualEpisodes_def Let_def)
  qed
  show ?thesis
    using tv ind tvEpisodeStep_future [OF fut] individualEpisodeStep_future [OF fut] by blast
qed

theorem release_date_gating_witness:
  "distinct (map ep_ID (tv_episodes series_db))
   \<and> example_episode 703 3 900 False \<in> set (tv_episodes series_db)
   \<and> notYetReleased 500 (example_episode 703 3 900 False)
   \<and> set (tv_episodes series_db) \<subseteq> set (tv_episodes series_db)
   \<and> fst (scrapeTVShow series_env example_config 500 series_item series_db) = None
   \<and> map Scraped (tv_episodes (snd (scrapeTVShow series_env example_config 500 series_item series_db)))
       = [True, True, False]
   \<and> map sr_InfoHash (scrape_results (snd (scrapeTVShow series_env example_config 500 series_item series_db)))
       = [Some ''e2'']
   \<and> example_episode 703 3 900 False
       \<in> set (tv_episodes (snd (scrapeTVShow series_env example_config 500 series_item series_db)))
   \<and> map Scraped (tv_episodes (snd (scrapeIndividualEpisodes series_env example_config 500 series_item
          season_one (tv_episodes series_db) series_db))) = [True, True, False]
   \<and> list_all (notYetReleased 50) (tv_episodes series_db)
   \<and> scrape_results (snd (scrapeTVShow series_env example_config 50 series_item series_db))
       = scrape_results series_db"
proof -
  let ?ep = "example_episode 703 3 900 False"
  have a: "distinct (map ep_ID (tv_episodes series_db))" by code_simp
  have b: "?ep \<in> set (tv_episodes series_db)" by (simp add: series_db_def)
  have c: "notYetReleased 500 ?ep" by code_simp
  have c': "notYetReleased 50 ?ep" by code_simp
  have d: "fst (scrapeTVShow series_env example_config 500 series_item series_db) = None"
    by code_simp
  have e: "map Scraped (tv_episodes (snd (scrapeTVShow series_env example_config 500 series_item series_db)))
       = [True, True, False]"
    by code_simp
  have f: "map sr_InfoHash (scrape_results (snd (scrapeTVShow series_env example_config 500 series_item series_db)))
       = [Some ''e2'']"
    by code_simp
  have g: "map Scraped (tv_episodes (snd (scrapeIndividualEpisodes series_env example_config 500 series_item
          season_one (tv_episodes series_db) series_db))) = [True, True, False]"
    by code_simp
  have h': "list_all (notYetReleased 50) (tv_episodes series_db)" by code_simp
  then have h: "\<forall>x \<in> set (tv_episodes series_db). notYetReleased 50 x"
    by (simp add: list_all_iff)
  note t1 = release_date_gating [OF a b c, of series_env example_config series_item
      series_streams "(False, series_db)" 1 season_one "(False, None, series_db)" "tv_episodes series_db"]
  note t2 = release_date_gating [OF a b c', of series_env example_config series_item
      series_streams "(False, series_db)" 1 season_one "(False, None, series_db)" "tv_episodes series_db"]
  have i: "?ep \<in> set (tv_episodes (snd (scrapeTVShow series_env example_config 500 series_item series_db)))"
    using t1 by blast
  have j: "scrape_results (snd (scrapeTVShow series_env example_config 50 series_item series_db))
       = scrape_results series_db"
    using t2 h by blast
  show ?thesis using a b c d e f g h' i j by blast
qed

section \<open>The downloader\<close>

lemma extends_refl: "extends (calls w) w"
  by (simp add: extends_def)

lemma extends_app: "extends cs w \<Longrightarrow> calls w' = calls w @ more_calls \<Longrightarrow> extends cs w'"
  by (auto simp: extends_def)

lemma extends_same: "extends cs w \<Longrightarrow> calls w' = calls w \<Longrightarrow> extends cs w'"
  by (auto simp: extends_def)

lemma pick_step:
  assumes "pick_inv seen st"
  shows "pick_inv (seen @ [r]) (pickBest st r)"
proof (cases "String (StatusResults r) = ''scraped'' \<and> ScrapedScore r \<noteq> None
         \<and> sint (Int32 (ScrapedScore r)) > sint (snd st)")
  case True
  then have p: "pickBest st r = (Some r, Int32 (ScrapedScore r))" by (simp add: pickBest_def)
  have "pickable r" using True assms by (auto simp: pickable_def pick_inv_def)
  moreover have "sint (Int32 (ScrapedScore r)) \<ge> 0" using True assms by (auto simp: pick_inv_def)
  moreover have "list_all (\<lambda>x. pickable x \<longrightarrow> sint (Int32 (ScrapedScore x))
                    \<le> sint (Int32 (ScrapedScore r))) seen"
    using True assms by (auto simp: pick_inv_def list_all_iff)
  ultimately show ?thesis
    unfolding p by (simp add: pick_inv_def)
next
  case False
  then have p: "pickBest st r = st" by (auto simp: pickBest_def)
  have le: "pickable r \<longrightarrow> sint (Int32 (ScrapedScore r)) \<le> sint (snd st)"
    using False by (auto simp: pickable_def)
  show ?thesis
  proof (cases "fst st")
    case None
    then have z: "snd st = 0" using assms by (simp add: pick_inv_def)
    then have "\<not> pickable r" using le by (auto simp: pickable_def)
    then show ?thesis
      unfolding p using assms None le by (auto simp: pick_inv_def list_all_iff)
  next
    case (Some b)
    then show ?thesis
      unfolding p using assms le by (simp add: pick_inv_def)
  qed
qed

lemma pick_fold:
  "pick_inv seen st \<Longrightarrow> pick_inv (seen @ rs) (foldl pickBest st rs)"
proof (induction rs arbitrary: seen st)
  case Nil
  then show ?case by simp
next
  case (Cons r rs)
  from Cons.IH [OF pick_step [OF Cons.prems, of r]] show ?case by simp
qed

lemma pick_all: "pick_inv rs (foldl pickBest (None, 0) rs)"
  using pick_fold [of "[]" "(None, 0)" rs] by (simp add: pick_inv_def)

lemma pick_none:
  assumes "\<forall>r \<in> set rs. \<not> pickable r"
  shows "foldl pickBest (None, 0) rs = (None, 0)"
proof -
  obtain b s where st: "foldl pickBest (None, 0) rs = (b, s)" by (cases "foldl pickBest (None, 0) rs")
  have inv: "pick_inv rs (b, s)" using pick_all [of rs] st by simp
  show ?thesis
  proof (cases b)
    case None
    with inv st show ?thesis by (simp add: pick_inv_def)
  next
    case (Some r)
    with inv have "r \<in> set rs \<and> pickable r" by (simp add: pick_inv_def)
    with assms show ?thesis by blast
  qed
qed

lemma pick_some:
  assumes "\<exists>r \<in> set rs. pickable r"
  shows "\<exists>best. foldl pickBest (None, 0) rs = (Some best, Int32 (ScrapedScore best))
     \<and> Int32 (ScrapedScore best) \<noteq> 0
     \<and> best \<in> set rs \<and> pickable best
     \<and> (\<forall>r \<in> set rs. pickable r \<longrightarrow>
           sint (Int32 (ScrapedScore r)) \<le> sint (Int32 (ScrapedScore best)))"
proof -
  obtain b s where st: "foldl pickBest (None, 0) rs = (b, s)" by (cases "foldl pickBest (None, 0) rs")
  have inv: "pick_inv rs (b, s)" using pick_all [of rs] st by simp
  show ?thesis
  proof (cases b)
    case None
    with inv have "\<forall>r \<in> set rs. \<not> pickable r" by (simp add: pick_inv_def list_all_iff)
    with assms show ?thesis by blast
  next
    case (Some r)
    with inv have r: "r \<in> set rs" "pickable r" "Int32 (ScrapedScore r) = s"
      "\<forall>x \<in> set rs. pickable x \<longrightarrow> sint (Int32 (ScrapedScore x)) \<le> sint s"
      by (simp_all add: pick_inv_def list_all_iff)
    have "s \<noteq> 0" using r(2,3) by (auto simp: pickable_def)
    with r st Some show ?thesis by auto
  qed
qed

lemma GetScrapeResultsForItem_cases:
  "GetScrapeResultsForItem i d = (x, d1) \<Longrightarrow>
   scrape_results d1 = scrape_results d \<and> tv_episodes d1 = tv_episodes d
   \<and> watchlistitem d1 = watchlistitem d \<and> seasons d1 = seasons d
   \<and> (\<forall>rs. x = Inr rs \<longrightarrow> set rs = {r \<in> set (scrape_results d). WatchlistItemID r = i})"
  by (auto simp: GetScrapeResultsForItem_def set_sort_Slice split: prod.splits if_splits
      dest!: driver_call_eq)

lemma GetScrapeResultsForItem_ok:
  "faults d = [] \<Longrightarrow>
   \<exists>rs. GetScrapeResultsForItem i d = (Inr rs, d)
     \<and> set rs = {r \<in> set (scrape_results d). WatchlistItemID r = i}"
  by (auto simp: GetScrapeResultsForItem_def set_sort_Slice driver_call_ok)

lemma addTorrent_calls:
  "addTorrent svc h w = (x, w1) \<Longrightarrow> calls w1 = calls w @ [AddMagnet h]"
  by (auto simp: addTorrent_def)

lemma selectFiles_calls:
  "selectFiles svc t w = (x, w1) \<Longrightarrow> calls w1 = calls w @ [SelectFiles t]"
  by (auto simp: selectFiles_def)

lemma updateDownloadStatus_calls:
  "updateDownloadStatus now r st w = (x, r1, w1) \<Longrightarrow> calls w1 = calls w"
  by (auto simp: updateDownloadStatus_def Let_def split: prod.splits option.splits)

lemma getDownloadLink_extends:
  "getDownloadLink svc now t r w = (x, r1, w1) \<Longrightarrow> extends cs w \<Longrightarrow> extends cs w1"
  by (auto simp: getDownloadLink_def Let_def removeTorrent_def extends_def
      split: option.splits if_splits prod.splits)

lemma checkDownloadStatus_extends:
  "checkDownloadStatus svc now t r w = (x, r1, w1) \<Longrightarrow> extends cs w \<Longrightarrow> extends cs w1"
  by (auto simp: checkDownloadStatus_def Let_def extends_def
      split: option.splits if_splits dest!: updateDownloadStatus_calls)

lemma waitAttempts_extends:
  "waitAttempts n svc now t r w = (x, r1, w1) \<Longrightarrow> extends cs w \<Longrightarrow> extends cs w1"
proof (induction n arbitrary: r w)
  case 0
  then show ?case by simp
next
  case (Suc n)
  obtain y r2 w2 where c: "checkDownloadStatus svc now t r w = (y, r2, w2)"
    by (cases "checkDownloadStatus svc now t r w") auto
  have e2: "extends cs w2" using checkDownloadStatus_extends [OF c Suc.prems(2)] .
  show ?case
  proof (cases y)
    case None
    with Suc.prems(1) c e2 show ?thesis by simp
  next
    case (Some err)
    with Suc.prems(1) c have "waitAttempts n svc now t r2 w2 = (x, r1, w1)" by simp
    from Suc.IH [OF this e2] show ?thesis .
  qed
qed

lemma downloadMovie_calls:
  "extends (calls w @ [AddMagnet (String (sr_InfoHash b))]) (snd (downloadMovie svc now item b w))"
proof -
  let ?cs = "calls w @ [AddMagnet (String (sr_InfoHash b))]"
  obtain x1 w1 where a: "addTorrent svc (String (sr_InfoHash b)) w = (x1, w1)"
    by (cases "addTorrent svc (String (sr_InfoHash b)) w")
  have e1: "extends ?cs w1" using addTorrent_calls [OF a] by (simp add: extends_def)
  show ?thesis
  proof (cases x1)
    case (Inl err)
    with a e1 show ?thesis by (simp add: downloadMovie_def)
  next
    case (Inr tid)
    obtain x2 w2 where s: "selectFiles svc tid w1 = (x2, w2)" by (cases "selectFiles svc tid w1")
    have e2: "extends ?cs w2" using e1 selectFiles_calls [OF s] by (rule extends_app)
    show ?thesis
    proof (cases x2)
      case (Some err)
      with a Inr s e2 show ?thesis by (simp add: downloadMovie_def)
    next
      case None
      obtain x3 r3 w3 where g: "getDownloadLink svc now tid b w2 = (x3, r3, w3)"
        by (cases "getDownloadLink svc now tid b w2") auto
      have e3: "extends ?cs w3" using getDownloadLink_extends [OF g e2] .
      show ?thesis
      proof (cases x3)
        case (Inl err)
        with a Inr s None g e3 show ?thesis by (simp add: downloadMovie_def)
      next
        case l: (Inr link)
        obtain x4 r4 w4 where u: "updateDownloadStatus now r3 ''downloading'' w3 = (x4, r4, w4)"
          by (cases "updateDownloadStatus now r3 ''downloading'' w3") auto
        have e4: "extends ?cs w4" using e3 updateDownloadStatus_calls [OF u] by (rule extends_same)
        show ?thesis
        proof (cases x4)
          case (Some err)
          with a Inr s None g l u e4 show ?thesis by (simp add: downloadMovie_def)
        next
          case n4: None
          obtain x5 r5 w5 where wt: "waitForDownload svc now tid r4 w4 = (x5, r5, w5)"
            by (cases "waitForDownload svc now tid r4 w4") auto
          have e5: "extends ?cs w5"
            using waitAttempts_extends [OF wt [unfolded waitForDownload_def] e4] .
          show ?thesis
            using a Inr s None g l u n4 wt e5
            by (cases x5) (auto simp: downloadMovie_def extends_def split: prod.splits option.splits)
        qed
      qed
    qed
  qed
qed


text \<open>
  Claim C10. For an item that is not a TV show, call a scrape result pickable when its
  status is \<open>scraped\<close> and its score is valid and above 0. If no result of the item is
  pickable, \<open>Download\<close> returns an error, sends nothing to the download service and
  leaves the tables as they are, whatever the driver does. If the driver does not
  fail and some result is pickable, the first request to the service is the magnet of
  a pickable result of the item whose score no pickable result of the item exceeds.
\<close>

theorem download_movie_selection:
  assumes movie: "\<not> (MediaType item \<noteq> None \<and> String (MediaType item) = ''tv'')"
  shows "((\<forall>r \<in> set (scrape_results (wdb w)). WatchlistItemID r = wi_ID item \<longrightarrow> \<not> pickable r) \<longrightarrow>
            fst (Download svc now item w) \<noteq> None
            \<and> calls (snd (Download svc now item w)) = calls w
            \<and> scrape_results (wdb (snd (Download svc now item w))) = scrape_results (wdb w)
            \<and> watchlistitem (wdb (snd (Download svc now item w))) = watchlistitem (wdb w)
            \<and> tv_episodes (wdb (snd (Download svc now item w))) = tv_episodes (wdb w))
     \<and> (faults (wdb w) = []
          \<and> (\<exists>r \<in> set (scrape_results (wdb w)). WatchlistItemID r = wi_ID item \<and> pickable r) \<longrightarrow>
            (\<exists>best \<in> set (scrape_results (wdb w)).
                WatchlistItemID best = wi_ID item \<and> pickable best
                \<and> (\<forall>r \<in> set (scrape_results (wdb w)).
                      WatchlistItemID r = wi_ID item \<and> pickable r \<longrightarrow>
                        sint (Int32 (ScrapedScore r)) \<le> sint (Int32 (ScrapedScore best)))
                \<and> (\<exists>rest. calls (snd (Download svc now item w))
                      = calls w @ AddMagnet (String (sr_InfoHash best)) # rest)))"
proof (intro conjI impI)
  assume none: "\<forall>r \<in> set (scrape_results (wdb w)). WatchlistItemID r = wi_ID item \<longrightarrow> \<not> pickable r"
  obtain x d1 where g: "GetScrapeResultsForItem (wi_ID item) (wdb w) = (x, d1)"
    by (cases "GetScrapeResultsForItem (wi_ID item) (wdb w)")
  note g0 = GetScrapeResultsForItem_cases [OF g]
  have "fst (Download svc now item w) \<noteq> None \<and> snd (Download svc now item w) = w\<lparr>wdb := d1\<rparr>"
  proof (cases x)
    case (Inl err)
    with g show ?thesis by (simp add: Download_def)
  next
    case (Inr rs)
    with g0 none have "\<forall>r \<in> set rs. \<not> pickable r" by auto
    then have "foldl pickBest (None, 0) rs = (None, 0)" by (rule pick_none)
    with g Inr movie show ?thesis by (auto simp: Download_def Let_def)
  qed
  with g0 show "fst (Download svc now item w) \<noteq> None"
    "calls (snd (Download svc now item w)) = calls w"
    "scrape_results (wdb (snd (Download svc now item w))) = scrape_results (wdb w)"
    "watchlistitem (wdb (snd (Download svc now item w))) = watchlistitem (wdb w)"
    "tv_episodes (wdb (snd (Download svc now item w))) = tv_episodes (wdb w)"
    by simp_all
next
  assume h: "faults (wdb w) = []
          \<and> (\<exists>r \<in> set (scrape_results (wdb w)). WatchlistItemID r = wi_ID item \<and> pickable r)"
  then obtain rs where g: "GetScrapeResultsForItem (wi_ID item) (wdb w) = (Inr rs, wdb w)"
    and rs: "set rs = {r \<in> set (scrape_results (wdb w)). WatchlistItemID r = wi_ID item}"
    using GetScrapeResultsForItem_ok [of "wdb w" "wi_ID item"] by blast
  from h rs have "\<exists>r \<in> set rs. pickable r" by auto
  from pick_some [OF this] obtain best where
    b: "foldl pickBest (None, 0) rs = (Some best, Int32 (ScrapedScore best))"
      "Int32 (ScrapedScore best) \<noteq> 0" "best \<in> set rs" "pickable best"
      "\<forall>r \<in> set rs. pickable r \<longrightarrow> sint (Int32 (ScrapedScore r)) \<le> sint (Int32 (ScrapedScore best))"
    by blast
  have ne: "rs \<noteq> []" using b(3) by auto
  have "Download svc now item w = downloadMovie svc now item best w"
    using g b(1,2) ne movie by (auto simp: Download_def Let_def)
  then have "\<exists>rest. calls (snd (Download svc now item w))
                      = calls w @ AddMagnet (String (sr_InfoHash best)) # rest"
    using downloadMovie_calls [of w best svc now item] by (simp add: extends_def)
  with b rs show "\<exists>best \<in> set (scrape_results (wdb w)).
                WatchlistItemID best = wi_ID item \<and> pickable best
                \<and> (\<forall>r \<in> set (scrape_results (wdb w)).
                      WatchlistItemID r = wi_ID item \<and> pickable r \<longrightarrow>
                        sint (Int32 (ScrapedScore r)) \<le> sint (Int32 (ScrapedScore best)))
                \<and> (\<exists>rest. calls (snd (Download svc now item w))
                      = calls w @ AddMagnet (String (sr_InfoHash best)) # rest)"
    by (intro bexI [of _ best]) auto
qed

theorem download_movie_selection_witness:
  "\<not> (MediaType example_item \<noteq> None \<and> String (MediaType example_item) = ''tv'')
   \<and> list_all (\<lambda>r. \<not> pickable r) (scrape_results (wdb zero_world))
   \<and> fst (Download ready_service 100 example_item zero_world) = Some NoValidScrapeResults
   \<and> calls (snd (Download ready_service 100 example_item zero_world)) = calls zero_world
   \<and> scrape_results (wdb (snd (Download ready_service 100 example_item zero_world)))
       = scrape_results (wdb zero_world)
   \<and> faults (wdb scored_world) = []
   \<and> map sr_InfoHash (filter pickable (scrape_results (wdb scored_world))) = [Some ''h1'', Some ''h2'']
   \<and> fst (Download ready_service 100 example_item scored_world) = None
   \<and> calls (snd (Download ready_service 100 example_item scored_world))
       = [AddMagnet ''h2'', SelectFiles ''T1'', TorrentInfo ''T1'', TorrentInfo ''T1'']
   \<and> (\<exists>best \<in> set (scrape_results (wdb scored_world)). pickable best
         \<and> (\<exists>rest. calls (snd (Download ready_service 100 example_item scored_world))
               = calls scored_world @ AddMagnet (String (sr_InfoHash best)) # rest))"
proof -
  have m: "\<not> (MediaType example_item \<noteq> None \<and> String (MediaType example_item) = ''tv'')"
    by code_simp
  have z: "list_all (\<lambda>r. \<not> pickable r) (scrape_results (wdb zero_world))" by code_simp
  then have z': "\<forall>r \<in> set (scrape_results (wdb zero_world)).
                   WatchlistItemID r = wi_ID example_item \<longrightarrow> \<not> pickable r"
    by (simp add: list_all_iff)
  have e: "fst (Download ready_service 100 example_item zero_world) = Some NoValidScrapeResults"
    by code_simp
  have f: "faults (wdb scored_world) = []" by code_simp
  have p: "map sr_InfoHash (filter pickable (scrape_results (wdb scored_world))) = [Some ''h1'', Some ''h2'']"
    by code_simp
  have ok: "fst (Download ready_service 100 example_item scored_world) = None" by code_simp
  have c: "calls (snd (Download ready_service 100 example_item scored_world))
       = [AddMagnet ''h2'', SelectFiles ''T1'', TorrentInfo ''T1'', TorrentInfo ''T1'']"
    by code_simp
  note t = download_movie_selection [OF m, of zero_world ready_service 100]
  have u: "calls (snd (Download ready_service 100 example_item zero_world)) = calls zero_world
     \<and> scrape_results (wdb (snd (Download ready_service 100 example_item zero_world)))
       = scrape_results (wdb zero_world)"
    using t z' by blast
  have ex: "list_ex (\<lambda>r. WatchlistItemID r = wi_ID example_item \<and> pickable r)
              (scrape_results (wdb scored_world))"
    by code_simp
  then have ex': "\<exists>r \<in> set (scrape_results (wdb scored_world)).
                    WatchlistItemID r = wi_ID example_item \<and> pickable r"
    by (simp add: list_ex_iff)
  have v: "\<exists>best \<in> set (scrape_results (wdb scored_world)). pickable best
         \<and> (\<exists>rest. calls (snd (Download ready_service 100 example_item scored_world))
               = calls scored_world @ AddMagnet (String (sr_InfoHash best)) # rest)"
    using download_movie_selection [OF m, of scored_world ready_service 100] f ex' by blast
  show ?thesis using m z e u f p ok c v by blast
qed

section \<open>The size tiers\<close>

lemma closestStreams_positions:
  "length acc < 3 \<Longrightarrow>
   closestStreams e maxSize xs i acc
   = take 3 (acc @ positions (\<lambda>s. f64_le (Fin (convertToGB e (FileSize (Parsed s)))) maxSize) xs i)"
proof (induction xs arbitrary: i acc)
  case Nil
  then show ?case by simp
next
  case (Cons s ss)
  show ?case
  proof (cases "f64_le (Fin (convertToGB e (FileSize (Parsed s)))) maxSize")
    case True
    show ?thesis
    proof (cases "length (acc @ [i]) = 3")
      case l: True
      with True show ?thesis by simp
    next
      case False
      with Cons.prems have "length (acc @ [i]) < 3" by simp
      from Cons.IH [OF this, of "i + 1"] True False show ?thesis by simp
    qed
  next
    case False
    with Cons.IH [OF Cons.prems, of "i + 1"] show ?thesis by simp
  qed
qed

lemma positions_Suc: "positions P xs (Suc i) = map Suc (positions P xs i)"
  by (induction xs arbitrary: i) auto

lemma assignFrom_shift: "assignFrom cfg k (map Suc js) (y # ys) = y # assignFrom cfg k js ys"
  by (induction js arbitrary: k ys) auto

lemma assignSizeScores_assignFrom:
  "length closest \<le> 3 \<Longrightarrow> assignSizeScores cfg closest ys = assignFrom cfg 0 closest ys"
proof -
  assume l: "length closest \<le> 3"
  consider "closest = []" | a where "closest = [a]" | a b where "closest = [a, b]"
    | a b c where "closest = [a, b, c]"
    using l by (cases closest; cases "tl closest"; cases "tl (tl closest)"; cases "tl (tl (tl closest))") auto
  then show ?thesis
    by cases (simp_all add: assignSizeScores_def Let_def tier_bonus_def)
qed

lemma tier_assign_assignFrom:
  "tier_assign cfg e maxSize k xs
   = assignFrom cfg k
       (take (3 - k) (positions (\<lambda>s. f64_le (Fin (convertToGB e (FileSize (Parsed s)))) maxSize) xs 0)) xs"
proof (induction xs arbitrary: k)
  case Nil
  then show ?case by simp
next
  case (Cons s ss)
  let ?P = "\<lambda>s. f64_le (Fin (convertToGB e (FileSize (Parsed s)))) maxSize"
  show ?case
  proof (cases "?P s")
    case False
    then show ?thesis
      using Cons.IH [of k]
      by (simp add: positions_Suc [of ?P ss 0] take_map assignFrom_shift)
  next
    case True
    show ?thesis
    proof (cases "k < 3")
      case k: True
      then have "3 - k = Suc (3 - Suc k)" by simp
      then have t: "take (3 - k) (0 # map Suc (positions ?P ss 0))
                    = 0 # map Suc (take (3 - Suc k) (positions ?P ss 0))"
        by (simp add: take_map del: diff_Suc_Suc)
      show ?thesis
        using True k Cons.IH [of "Suc k"]
        by (simp add: positions_Suc [of ?P ss 0] t assignFrom_shift)
    next
      case False
      then show ?thesis
        using True Cons.IH [of "Suc k"] by simp
    qed
  qed
qed

lemma assignSizeScores_tier_assign:
  "assignSizeScores cfg (closestStreams e maxSize xs 0 []) xs = tier_assign cfg e maxSize 0 xs"
  by (simp add: closestStreams_positions assignSizeScores_assignFrom tier_assign_assignFrom)

lemma tier_assign_bonuses:
  "\<forall>x \<in> set xs. SizeScore (Parsed x) = 0 \<Longrightarrow>
   map (\<lambda>s. SizeScore (Parsed s)) (tier_assign cfg e maxSize k xs)
   = spec_size_bonuses cfg maxSize k (map (\<lambda>s. convertToGB e (FileSize (Parsed s))) xs)"
  by (induction xs arbitrary: k) (auto simp: setSizeScore_def tier_bonus_def)

lemma tierMaxSize_reset: "tierMaxSize cfg (map (setSizeScore 0) xs) = tierMaxSize cfg xs"
  by (cases xs) (simp_all add: tierMaxSize_def setSizeScore_def)

text \<open>The streams are sorted by size in GB, largest first.\<close>

lemma sortedBySize_descending:
  "sorted_wrt (\<lambda>a b. a \<ge> b)
     (map (\<lambda>s. convertToGB e (FileSize (Parsed s))) (sortedBySize e cfg streams))"
  unfolding sortedBySize_def sorted_wrt_map
  by (rule sorted_sort_Slice [of "\<lambda>s. convertToGB e (FileSize (Parsed s))"])

text \<open>
  For every list of streams, the size bonuses that \<open>processStreams\<close> assigns are those
  of the specification's tiering, taken with the maximum size that the code chooses:
  \<open>tierMaxSize\<close>, which reads the title of the largest stream, not the item's media
  type.
\<close>

lemma size_bonuses_by_title:
  "map (\<lambda>s. SizeScore (Parsed s)) (scoredStreams e cfg streams)
   = spec_size_bonuses cfg (tierMaxSize cfg (sortedBySize e cfg streams)) 0
       (map (\<lambda>s. convertToGB e (FileSize (Parsed s))) (sortedBySize e cfg streams))"
proof -
  let ?S = "sortedBySize e cfg streams"
  let ?xs = "map (setSizeScore 0) ?S"
  have zero: "\<forall>x \<in> set ?xs. SizeScore (Parsed x) = 0"
    by (simp add: setSizeScore_def)
  have sizes: "map (\<lambda>s. convertToGB e (FileSize (Parsed s))) ?xs
               = map (\<lambda>s. convertToGB e (FileSize (Parsed s))) ?S"
    by (simp add: setSizeScore_def)
  have "map (\<lambda>s. SizeScore (Parsed s)) (scoredStreams e cfg streams)
        = map (\<lambda>s. SizeScore (Parsed s)) (tier_assign cfg e (tierMaxSize cfg ?S) 0 ?xs)"
    by (simp add: scoredStreams_def Let_def assignSizeScores_tier_assign tierMaxSize_reset comp_def)
  also have "\<dots> = spec_size_bonuses cfg (tierMaxSize cfg ?S) 0
                       (map (\<lambda>s. convertToGB e (FileSize (Parsed s))) ?xs)"
    by (rule tier_assign_bonuses [OF zero])
  finally show ?thesis by (simp only: sizes)
qed












section \<open>Selection after a failed download\<close>

lemma alpha_ranking:
  "map InfoHash (rankedStreams example_env tier_config alpha_streams example_item)
     = [''h2'', ''h1'', ''h3'', ''h4'']"
  by code_simp

lemma series_scores:
  "map (\<lambda>s. (InfoHash s, Score s)) (map (reparse series_env example_config) series_streams)
       = [(''e2'', 2300), (''e3'', 2300), (''e2b'', 200)]"
  by code_simp

lemma tv_first_selection:
  "map (\<lambda>r. (sr_InfoHash r, StatusResults r)) (scrape_results tv_scrape_1)
       = [(Some ''e2'', Some ''scraped'')]"
  by code_simp

lemma tv_download_request:
  "calls tv_download_1 = [AddMagnet ''e2'']"
  by code_simp

lemma tv_download_marks:
  "map (\<lambda>r. (sr_InfoHash r, StatusResults r)) (scrape_results (wdb tv_download_1))
       = [(Some ''e2'', Some ''downloader_ignored_hash'')]"
  by code_simp

lemma tv_second_run:
  "map (\<lambda>r. (sr_InfoHash r, StatusResults r, ScrapedDate r)) (scrape_results tv_scrape_2)
       = [(Some ''e2'', Some ''downloader_ignored_hash'', Some 500)]"
  by code_simp

lemma tv_second_run_reset:
  "map (\<lambda>r. (sr_InfoHash r, StatusResults r, ScrapedDate r)) (scrape_results tv_scrape_2_reset)
       = [(Some ''e2'', Some ''scraped'', Some 520)]"
  by code_simp

lemma movie_first_run:
  "map (\<lambda>r. (sr_InfoHash r, StatusResults r, ScrapedDate r)) (scrape_results movie_scrape_1)
       = [(Some ''h2'', Some ''ready_for_download'', Some 100)]"
  by code_simp

lemma movie_download_fails:
  "Download ready_service 150 example_item \<lparr> wdb = movie_scrape_1, calls = [] \<rparr>
       = (Some NoValidScrapeResults, \<lparr> wdb = movie_scrape_1, calls = [] \<rparr>)"
  by code_simp

lemma movie_second_run:
  "map (\<lambda>r. (sr_InfoHash r, StatusResults r, ScrapedDate r)) (scrape_results movie_scrape_2)
       = [(Some ''h2'', Some ''ignored hash'', Some 100),
          (Some ''h1'', Some ''ready_for_download'', Some 200)]"
  by code_simp

lemma movie_third_run:
  "map (\<lambda>r. (sr_InfoHash r, StatusResults r, ScrapedDate r)) (scrape_results movie_scrape_3)
       = [(Some ''h2'', Some ''ignored hash'', Some 100),
          (Some ''h1'', Some ''ready_for_download'', Some 300)]"
  by code_simp

lemma movie_third_run_reordered:
  "map (\<lambda>r. (sr_InfoHash r, StatusResults r, ScrapedDate r)) (scrape_results movie_scrape_3_reordered)
       = [(Some ''h1'', Some ''ignored hash'', Some 200),
          (Some ''h2'', Some ''ready_for_download'', Some 300)]"
  by code_simp

text \<open>
  Claim C5 (blacklist re-selection). The claim: once the download of a selected
  candidate has failed, its info hash is excluded for good, and the next scrape run
  over the same candidates selects the best remaining one under another hash. The
  code at two inputs:

  \<^item> The series. The first scrape run selects \<open>e2\<close> (score 2300, before \<open>e2b\<close> with 200)
    for the aired episode; the download service refuses it and \<open>Download\<close> marks the
    result \<open>downloader_ignored_hash\<close>. The second scrape run over the same answer
    selects nothing for the episode, which its row still gives as scraped; once the row
    is set back to unscraped, the run selects \<open>e2\<close> again, never \<open>e2b\<close>.

  \<^item> The movie. The first run selects \<open>h2\<close>, and \<open>Download\<close> fails on its result without
    a request to the service. The second run drops \<open>h2\<close> and selects \<open>h1\<close>. The third
    run drops only the hash of the first stored row: it selects \<open>h1\<close> again, or \<open>h2\<close>
    again when the rows are stored in the other order, never \<open>h3\<close>.
\<close>

theorem blacklist_failing_input:
  "map InfoHash (rankedStreams example_env tier_config alpha_streams example_item)
     = [''h2'', ''h1'', ''h3'', ''h4'']
   \<and> map (\<lambda>s. (InfoHash s, Score s)) (map (reparse series_env example_config) series_streams)
       = [(''e2'', 2300), (''e3'', 2300), (''e2b'', 200)]
   \<and> map (\<lambda>r. (sr_InfoHash r, StatusResults r)) (scrape_results tv_scrape_1)
       = [(Some ''e2'', Some ''scraped'')]
   \<and> calls tv_download_1 = [AddMagnet ''e2'']
   \<and> map (\<lambda>r. (sr_InfoHash r, StatusResults r)) (scrape_results (wdb tv_download_1))
       = [(Some ''e2'', Some ''downloader_ignored_hash'')]
   \<and> map (\<lambda>r. (sr_InfoHash r, StatusResults r, ScrapedDate r)) (scrape_results tv_scrape_2)
       = [(Some ''e2'', Some ''downloader_ignored_hash'', Some 500)]
   \<and> map (\<lambda>r. (sr_InfoHash r, StatusResults r, ScrapedDate r)) (scrape_results tv_scrape_2_reset)
       = [(Some ''e2'', Some ''scraped'', Some 520)]
   \<and> map (\<lambda>r. (sr_InfoHash r, StatusResults r, ScrapedDate r)) (scrape_results movie_scrape_1)
       = [(Some ''h2'', Some ''ready_for_download'', Some 100)]
   \<and> Download ready_service 150 example_item \<lparr> wdb = movie_scrape_1, calls = [] \<rparr>
       = (Some NoValidScrapeResults, \<lparr> wdb = movie_scrape_1, calls = [] \<rparr>)
   \<and> map (\<lambda>r. (sr_InfoHash r, StatusResults r, ScrapedDate r)) (scrape_results movie_scrape_2)
       = [(Some ''h2'', Some ''ignored hash'', Some 100),
          (Some ''h1'', Some ''ready_for_download'', Some 200)]
   \<and> map (\<lambda>r. (sr_InfoHash r, StatusResults r, ScrapedDate r)) (scrape_results movie_scrape_3)
       = [(Some ''h2'', Some ''ignored hash'', Some 100),
          (Some ''h1'', Some ''ready_for_download'', Some 300)]
   \<and> map (\<lambda>r. (sr_InfoHash r, StatusResults r, ScrapedDate r)) (scrape_results movie_scrape_3_reordered)
       = [(Some ''h1'', Some ''ignored hash'', Some 200),
          (Some ''h2'', Some ''ready_for_download'', Some 300)]"
  using alpha_ranking series_scores tv_first_selection tv_download_request tv_download_marks tv_second_run
    tv_second_run_reset movie_first_run movie_download_fails movie_second_run movie_third_run movie_third_run_reordered
  by blast

section \<open>Season packs in a scrape run\<close>









end
